theory Spec2Isabelle
  imports Main "HOL-Library.Sublist"
begin

section \<open>JavaScript strings and the host functions the service calls\<close>

text \<open>
  A JavaScript string is a sequence of UTF-16 code units. Tarball member paths may hold
  code units beyond ASCII, so a string is a list of code-unit values; \<open>js\<close> embeds
  an ASCII literal.
\<close>

type_synonym jsstring = "nat list"

definition js :: "string \<Rightarrow> jsstring" where
  "js s = map of_char s"

definition SLASH :: nat where
  "SLASH = 47"

text \<open>\<^verbatim>\<open>s.includes(pat)\<close>: \<open>pat\<close> occurs in \<open>s\<close> as a contiguous run.\<close>

fun js_includes :: "jsstring \<Rightarrow> jsstring \<Rightarrow> bool" where
  "js_includes [] pat = (pat = [])"
| "js_includes (c # cs) pat = (prefix pat (c # cs) \<or> js_includes cs pat)"

text \<open>\<^verbatim>\<open>s.split(sep)\<close> for a one-code-unit separator; the result is never empty.\<close>

fun js_split :: "nat \<Rightarrow> jsstring \<Rightarrow> jsstring list" where
  "js_split sep [] = [[]]"
| "js_split sep (c # cs) =
     (if c = sep then [] # js_split sep cs
      else (case js_split sep cs of
              [] \<Rightarrow> [[c]]
            | seg # segs \<Rightarrow> (c # seg) # segs))"

text \<open>\<^verbatim>\<open>parts.join(sep)\<close>.\<close>

fun js_join :: "jsstring \<Rightarrow> jsstring list \<Rightarrow> jsstring" where
  "js_join sep [] = []"
| "js_join sep [seg] = seg"
| "js_join sep (seg # segs) = seg @ sep @ js_join sep segs"

text \<open>\<^verbatim>\<open>s.replace(c, r)\<close> with a string pattern of one code unit: only the first
  occurrence is replaced.\<close>

fun js_replace :: "nat \<Rightarrow> jsstring \<Rightarrow> jsstring \<Rightarrow> jsstring" where
  "js_replace c r [] = []"
| "js_replace c r (x # xs) = (if x = c then r @ xs else x # js_replace c r xs)"

text \<open>\<^verbatim>\<open>s.slice(start, end)\<close> for \<open>0 \<le> start \<le> end\<close>.\<close>

definition js_slice :: "jsstring \<Rightarrow> nat \<Rightarrow> nat \<Rightarrow> jsstring" where
  "js_slice s start end = take (end - start) (drop start s)"

subsection \<open>\<^verbatim>\<open>path.dirname\<close> and \<open>path.basename\<close> (POSIX)\<close>

text \<open>
  The two functions of \<^verbatim>\<open>node:path\<close> that \<^verbatim>\<open>#getDirectoryAndName\<close> calls, in their
  POSIX form. Both scan the path from its last code unit towards the front; the scans
  are the recursive functions below, the index counting down.

  \<^verbatim>\<open>dirname\<close> looks at the indices \<open>length path - 1\<close> down to \<open>1\<close> and stops at the
  first slash that follows a non-slash; \<open>None\<close> is the \<^verbatim>\<open>end === -1\<close> of the host
  code.
\<close>

fun dirname_scan :: "jsstring \<Rightarrow> nat \<Rightarrow> bool \<Rightarrow> nat option" where
  "dirname_scan path 0 matchedSlash = None"
| "dirname_scan path (Suc i) matchedSlash =
     (if path ! Suc i = SLASH
      then (if \<not> matchedSlash then Some (Suc i) else dirname_scan path i matchedSlash)
      else dirname_scan path i False)"

definition dirname :: "jsstring \<Rightarrow> jsstring" where
  "dirname path =
     (if length path = 0 then js ''.''
      else
        (let hasRoot = (path ! 0 = SLASH) in
         case dirname_scan path (length path - 1) True of
           None \<Rightarrow> (if hasRoot then js ''/'' else js ''.'')
         | Some end \<Rightarrow>
             (if hasRoot \<and> end = 1 then js ''//'' else js_slice path 0 end)))"

text \<open>
  \<^verbatim>\<open>basename\<close> (no suffix argument) looks at the indices \<open>length path - 1\<close> down to
  \<open>0\<close>; the scan's second argument is the number of indices still to visit, its state is
  \<open>(start, end, matchedSlash)\<close>.
\<close>

fun basename_scan :: "jsstring \<Rightarrow> nat \<Rightarrow> nat option \<Rightarrow> bool \<Rightarrow> nat \<times> nat option" where
  "basename_scan path 0 end matchedSlash = (0, end)"
| "basename_scan path (Suc i) end matchedSlash =
     (if path ! i = SLASH
      then (if \<not> matchedSlash then (i + 1, end) else basename_scan path i end matchedSlash)
      else (if end = None then basename_scan path i (Some (i + 1)) False
            else basename_scan path i end matchedSlash))"

definition basename :: "jsstring \<Rightarrow> jsstring" where
  "basename path =
     (case basename_scan path (length path) None True of
        (start, None) \<Rightarrow> []
      | (start, Some end) \<Rightarrow> js_slice path start end)"

subsection \<open>\<^verbatim>\<open>encodeURI\<close>\<close>

datatype error = Error (code: "string option") (message: string)

definition URIError :: error where
  "URIError = Error None ''URI malformed''"

text \<open>
  The code units \<^verbatim>\<open>encodeURI\<close> leaves as they are: letters, digits, the marks
  \<^verbatim>\<open>-_.!~*'()\<close>, the reserved \<^verbatim>\<open>;/?:@&=+$,\<close> and \<^verbatim>\<open>#\<close> (39 is the apostrophe).
\<close>

definition uriUnescaped :: "nat \<Rightarrow> bool" where
  "uriUnescaped c =
     (c \<in> set (js ''ABCDEFGHIJKLMNOPQRSTUVWXYZabcdefghijklmnopqrstuvwxyz0123456789'')
      \<or> c \<in> set (js ''-_.!~*()'') \<or> c = 39
      \<or> c \<in> set (js '';/?:@&=+$,'') \<or> c \<in> set (js ''#''))"

definition isLeadSurrogate :: "nat \<Rightarrow> bool" where
  "isLeadSurrogate c = (0xD800 \<le> c \<and> c \<le> 0xDBFF)"

definition isTrailSurrogate :: "nat \<Rightarrow> bool" where
  "isTrailSurrogate c = (0xDC00 \<le> c \<and> c \<le> 0xDFFF)"

definition utf8 :: "nat \<Rightarrow> nat list" where
  "utf8 cp =
     (if cp < 0x80 then [cp]
      else if cp < 0x800 then [0xC0 + cp div 64, 0x80 + cp mod 64]
      else if cp < 0x10000 then
        [0xE0 + cp div 4096, 0x80 + (cp div 64) mod 64, 0x80 + cp mod 64]
      else
        [0xF0 + cp div 262144, 0x80 + (cp div 4096) mod 64,
         0x80 + (cp div 64) mod 64, 0x80 + cp mod 64])"

definition hexDigit :: "nat \<Rightarrow> nat" where
  "hexDigit n = js ''0123456789ABCDEF'' ! (n mod 16)"

definition percent :: "nat \<Rightarrow> jsstring" where
  "percent octet = js ''%'' @ [hexDigit (octet div 16), hexDigit (octet mod 16)]"

definition escaped :: "nat \<Rightarrow> jsstring" where
  "escaped cp = concat (map percent (utf8 cp))"

definition andThen :: "jsstring \<Rightarrow> error + jsstring \<Rightarrow> error + jsstring" where
  "andThen out r = (case r of Inl e \<Rightarrow> Inl e | Inr rest \<Rightarrow> Inr (out @ rest))"

fun encodeURI :: "jsstring \<Rightarrow> error + jsstring" where
  "encodeURI [] = Inr []"
| "encodeURI (c # cs) =
     (if uriUnescaped c then andThen [c] (encodeURI cs)
      else if isTrailSurrogate c then Inl URIError
      else if isLeadSurrogate c then
        (case cs of
           [] \<Rightarrow> Inl URIError
         | d # ds \<Rightarrow>
             (if isTrailSurrogate d
              then andThen (escaped ((c - 0xD800) * 0x400 + (d - 0xDC00) + 0x10000))
                     (encodeURI ds)
              else Inl URIError))
      else andThen (escaped c) (encodeURI cs))"

section \<open>Data model\<close>

text \<open>
  The entities of the service. A \<open>Dist\<close> is a content blob reference;
  \<open>PackageVersionFile\<close> is one row of the file index.
\<close>

record Dist =
  dist_fullname :: jsstring
  dist_path :: jsstring
  dist_version :: jsstring
  dist_size :: nat
  dist_shasum :: jsstring
  dist_integrity :: jsstring

record Package =
  pkg_packageId :: jsstring
  fullname :: jsstring

record PackageVersion =
  packageId :: jsstring
  packageVersionId :: jsstring
  version :: jsstring
  tarDist :: Dist
  publishTime :: nat

record PackageVersionFile =
  file_packageVersionId :: jsstring
  directory :: jsstring
  name :: jsstring
  dist :: Dist
  contentType :: jsstring
  mtime :: nat

text \<open>An archive member as the extractor hands it to \<^verbatim>\<open>onentry\<close>.\<close>

record tar_entry =
  entry_type :: string
  entry_path :: jsstring

text \<open>
  Modelled from the spec: \<^verbatim>\<open>Package.createPackageVersionFile\<close> is not among the
  sources. The spec has the percent-encoded path "combined with the version string" as the
  blob's external path key, next to size, digest and integrity value; the record keeps the
  arguments of the call as they are passed.
\<close>

definition Package_createPackageVersionFile ::
  "Package \<Rightarrow> jsstring \<Rightarrow> jsstring \<Rightarrow> nat \<Rightarrow> jsstring \<Rightarrow> jsstring \<Rightarrow> Dist" where
  "Package_createPackageVersionFile pkg distPath ver sz sha integ =
     \<lparr>dist_fullname = fullname pkg, dist_path = distPath, dist_version = ver,
      dist_size = sz, dist_shasum = sha, dist_integrity = integ\<rparr>"

section \<open>Collaborators and the world they act on\<close>

text \<open>
  Every call that leaves the service is recorded as an event, in order. Blob writes are
  the \<open>SaveDist\<close> events, index writes the \<open>CreateFile\<close> events.
\<close>

datatype event =
    FindPackage jsstring
  | CreateTempDir jsstring jsstring
  | Download Dist jsstring
  | TarExtract jsstring jsstring
  | HasFiles jsstring
  | ListFiles jsstring jsstring
  | FindFile jsstring jsstring jsstring
  | Stat jsstring
  | CalculateIntegrity jsstring
  | SaveDist Dist jsstring
  | CreateFile PackageVersionFile
  | SaveReadme PackageVersion jsstring
  | Rm jsstring
  | LogInfo string
  | LogWarn string

text \<open>
  The world: the rows of the file index, the temporary paths that exist on disk, and the
  events so far.
\<close>

record world =
  index :: "PackageVersionFile list"
  tmpfs :: "jsstring list"
  trace :: "event list"

definition emit :: "event \<Rightarrow> world \<Rightarrow> world" where
  "emit ev w = w\<lparr>trace := trace w @ [ev]\<rparr>"

text \<open>
  What the collaborators answer. Each fallible call has its outcome here, an error or a
  value, so that every way the call can end is a branch of the service. \<open>tarEntries\<close>
  are the members the extractor reports to \<^verbatim>\<open>onentry\<close> before it finishes or fails with
  \<open>tarFailure\<close>. \<open>insertFault\<close> is a failure of the index insert raised by the storage
  itself, among them the duplicate-key conflict of an insert that lost a race.
\<close>

record env =
  findPackageByPackageId :: "jsstring \<Rightarrow> Package option"
  dataDir :: jsstring
  randomUUID :: jsstring
  createTempDir :: "jsstring \<Rightarrow> jsstring \<Rightarrow> error + jsstring"
  downloadDistToFile :: "Dist \<Rightarrow> jsstring \<Rightarrow> error option"
  tarEntries :: "tar_entry list"
  tarFailure :: "error option"
  join :: "jsstring \<Rightarrow> jsstring \<Rightarrow> jsstring"
  stat :: "jsstring \<Rightarrow> error + nat"
  calculateIntegrity :: "jsstring \<Rightarrow> error + (jsstring \<times> jsstring)"
  saveDist :: "Dist \<Rightarrow> jsstring \<Rightarrow> error option"
  mimeLookup :: "jsstring \<Rightarrow> jsstring"
  insertFault :: "PackageVersionFile \<Rightarrow> error option"
  savePackageVersionReadme :: "PackageVersion \<Rightarrow> jsstring \<Rightarrow> error option"
  rm :: "jsstring \<Rightarrow> error option"

subsection \<open>The file index\<close>

text \<open>
  \<^verbatim>\<open>PackageVersionFileRepository\<close> is not among the sources; its four methods follow
  the spec. The index is the list of its rows, and two rows are the same entry when they
  agree on (version, directory, name).
\<close>

definition sameKey :: "jsstring \<Rightarrow> jsstring \<Rightarrow> jsstring \<Rightarrow> PackageVersionFile \<Rightarrow> bool" where
  "sameKey vid d n f = (file_packageVersionId f = vid \<and> directory f = d \<and> name f = n)"

text \<open>
  Modelled from the spec: \<^verbatim>\<open>findPackageVersionFile\<close> is missing; "return the single
  matching entry, or a not-found signal".
\<close>

definition repo_findPackageVersionFile ::
  "PackageVersionFile list \<Rightarrow> jsstring \<Rightarrow> jsstring \<Rightarrow> jsstring \<Rightarrow> PackageVersionFile option" where
  "repo_findPackageVersionFile rows vid d n = find (sameKey vid d n) rows"

text \<open>
  Modelled from the spec: \<^verbatim>\<open>hasPackageVersionFiles\<close> is missing; the index has "zero
  entries for the version" or not.
\<close>

definition repo_hasPackageVersionFiles :: "PackageVersionFile list \<Rightarrow> jsstring \<Rightarrow> bool" where
  "repo_hasPackageVersionFiles rows vid = (find (\<lambda>f. file_packageVersionId f = vid) rows \<noteq> None)"

text \<open>
  Modelled from the spec: \<^verbatim>\<open>listPackageVersionFiles\<close> of the repository is missing;
  "return all index entries whose directory matches".
\<close>

definition repo_listPackageVersionFiles ::
  "PackageVersionFile list \<Rightarrow> jsstring \<Rightarrow> jsstring \<Rightarrow> PackageVersionFile list" where
  "repo_listPackageVersionFiles rows vid d =
     filter (\<lambda>f. file_packageVersionId f = vid \<and> directory f = d) rows"

definition ER_DUP_ENTRY :: error where
  "ER_DUP_ENTRY = Error (Some ''ER_DUP_ENTRY'') ''Duplicate entry''"

text \<open>
  Modelled from the spec: \<^verbatim>\<open>createPackageVersionFile\<close> of the repository is missing. The
  tuple is unique, "enforced by the index": an insert of a tuple that has a row fails with
  the duplicate-key error, as does an insert the storage rejects through \<open>insertFault\<close>.
\<close>

definition repo_createPackageVersionFile ::
  "env \<Rightarrow> PackageVersionFile \<Rightarrow> world \<Rightarrow> (error + unit) \<times> world" where
  "repo_createPackageVersionFile e file w =
     (let w1 = emit (CreateFile file) w in
      case insertFault e file of
        Some err \<Rightarrow> (Inl err, w1)
      | None \<Rightarrow>
          (if repo_findPackageVersionFile (index w1) (file_packageVersionId file)
                (directory file) (name file) \<noteq> None
           then (Inl ER_DUP_ENTRY, w1)
           else (Inr (), w1\<lparr>index := index w1 @ [file]\<rparr>)))"

text \<open>\<^verbatim>\<open>fs.rm(path, { force: true })\<close>: the path is gone unless the call fails.\<close>

definition fs_rm :: "env \<Rightarrow> jsstring \<Rightarrow> world \<Rightarrow> error option \<times> world" where
  "fs_rm e p w =
     (let w1 = emit (Rm p) w in
      case rm e p of
        Some err \<Rightarrow> (Some err, w1)
      | None \<Rightarrow> (None, w1\<lparr>tmpfs := filter (\<lambda>q. q \<noteq> p) (tmpfs w1)\<rparr>))"

section \<open>The service\<close>

definition getDirectoryAndName :: "jsstring \<Rightarrow> jsstring \<times> jsstring" where
  "getDirectoryAndName path = (dirname path, basename path)"

text \<open>
  \<^verbatim>\<open>#savePackageVersionFile\<close>. \<^verbatim>\<open>PackageVersionFile.create\<close> builds the entry from
  the fields it is given; the generated identifier, which only the log line reads, is left
  out.
\<close>

definition savePackageVersionFile ::
  "env \<Rightarrow> Package \<Rightarrow> PackageVersion \<Rightarrow> jsstring \<Rightarrow> jsstring \<Rightarrow> world
     \<Rightarrow> (error + PackageVersionFile) \<times> world" where
  "savePackageVersionFile e pkg pkgVersion path localFile w =
     (case getDirectoryAndName path of (d, n) \<Rightarrow>
      let w1 = emit (FindFile (packageVersionId pkgVersion) d n) w in
      case repo_findPackageVersionFile (index w1) (packageVersionId pkgVersion) d n of
        Some file \<Rightarrow> (Inr file, w1)
      | None \<Rightarrow>
          (let w2 = emit (Stat localFile) w1 in
           case stat e localFile of
             Inl err \<Rightarrow> (Inl err, w2)
           | Inr sz \<Rightarrow>
               (let w3 = emit (CalculateIntegrity localFile) w2 in
                case calculateIntegrity e localFile of
                  Inl err \<Rightarrow> (Inl err, w3)
                | Inr (sha, integ) \<Rightarrow>
                    (case encodeURI path of
                       Inl err \<Rightarrow> (Inl err, w3)
                     | Inr distPath \<Rightarrow>
                         (let dst = Package_createPackageVersionFile pkg distPath
                                      (version pkgVersion) sz sha integ;
                              w4 = emit (SaveDist dst localFile) w3 in
                          case saveDist e dst localFile of
                            Some err \<Rightarrow> (Inl err, w4)
                          | None \<Rightarrow>
                              (let file = \<lparr>file_packageVersionId = packageVersionId pkgVersion,
                                           directory = d, name = n, dist = dst,
                                           contentType = mimeLookup e path,
                                           mtime = publishTime pkgVersion\<rparr> in
                               case repo_createPackageVersionFile e file w4 of
                                 (Inr u, w5) \<Rightarrow>
                                   (Inr file, emit (LogInfo ''savePackageVersionFile:success'') w5)
                               | (Inl err, w5) \<Rightarrow>
                                   (if code err = Some ''ER_DUP_ENTRY'' then (Inr file, w5)
                                    else (Inl err, w5))))))))"

text \<open>
  The \<^verbatim>\<open>onentry\<close> callback. Its state is the pair of the closure variables it
  assigns: \<^verbatim>\<open>paths\<close> and \<^verbatim>\<open>readmeFilename\<close> (the empty string is falsy).
\<close>

definition stripFirst :: "jsstring \<Rightarrow> jsstring" where
  "stripFirst p = js_join (js ''/'') (drop 1 (js_split SLASH p))"

definition isReadme :: "jsstring \<Rightarrow> bool" where
  "isReadme filename =
     (filename = js ''README.md'' \<or> filename = js ''readme.md'' \<or> filename = js ''Readme.md'')"

definition onentry :: "tar_entry \<Rightarrow> jsstring list \<times> jsstring \<Rightarrow> jsstring list \<times> jsstring" where
  "onentry entry st =
     (case st of (paths, readmeFilename) \<Rightarrow>
      if entry_type entry \<noteq> ''File'' then st
      else if js_includes (entry_path entry) (js ''/./'') then st
      else
        (let filename = stripFirst (entry_path entry);
             paths' = paths @ [js ''/'' @ filename] in
         if readmeFilename = [] then
           (if isReadme filename then (paths', filename) else (paths', readmeFilename))
         else (paths', readmeFilename)))"

text \<open>
  \<^verbatim>\<open>tar.extract\<close>: the callback runs on every member the extractor reports, in
  order; then the call ends, with \<open>tarFailure\<close> when there is one.
\<close>

definition tar_extract ::
  "env \<Rightarrow> jsstring \<Rightarrow> jsstring \<Rightarrow> jsstring list \<times> jsstring \<Rightarrow> world
     \<Rightarrow> (error option \<times> jsstring list \<times> jsstring) \<times> world" where
  "tar_extract e tarFile tmpdir st w =
     ((tarFailure e, foldl (\<lambda>s entry. onentry entry s) st (tarEntries e)),
      emit (TarExtract tarFile tmpdir) w)"

text \<open>
  The loop over \<^verbatim>\<open>paths\<close>. \<^verbatim>\<open>files\<close> is assigned in the loop and read by the
  \<^verbatim>\<open>catch\<close> block, so the loop returns it together with the error that ended it.
\<close>

fun saveAll ::
  "env \<Rightarrow> Package \<Rightarrow> PackageVersion \<Rightarrow> jsstring \<Rightarrow> jsstring list \<Rightarrow> PackageVersionFile list
     \<Rightarrow> world \<Rightarrow> (error option \<times> PackageVersionFile list) \<times> world" where
  "saveAll e pkg pkgVersion tmpdir [] files w = ((None, files), w)"
| "saveAll e pkg pkgVersion tmpdir (path # paths) files w =
     (let localFile = join e tmpdir path in
      case savePackageVersionFile e pkg pkgVersion path localFile w of
        (Inl err, w') \<Rightarrow> ((Some err, files), w')
      | (Inr file, w') \<Rightarrow> saveAll e pkg pkgVersion tmpdir paths (files @ [file]) w')"

text \<open>
  The \<^verbatim>\<open>try\<close> block of \<^verbatim>\<open>syncPackageVersionFiles\<close>: the error it throws, if any, and
  \<^verbatim>\<open>files\<close> as it stands at that point. The download leaves the tarball path on disk
  whether it succeeds or fails, the less favourable case for the cleanup.
\<close>

definition syncTry ::
  "env \<Rightarrow> Package \<Rightarrow> PackageVersion \<Rightarrow> jsstring \<Rightarrow> jsstring \<Rightarrow> world
     \<Rightarrow> (error option \<times> PackageVersionFile list) \<times> world" where
  "syncTry e pkg pkgVersion tmpdir tarFile w =
     (let w1 = emit (Download (tarDist pkgVersion) tarFile) (emit (LogInfo ''download-start'') w);
          w2 = w1\<lparr>tmpfs := tmpfs w1 @ [tarFile]\<rparr> in
      case downloadDistToFile e (tarDist pkgVersion) tarFile of
        Some err \<Rightarrow> ((Some err, []), w2)
      | None \<Rightarrow>
          (case tar_extract e tarFile tmpdir ([], []) (emit (LogInfo ''extract-start'') w2) of
             ((Some err, st), w3) \<Rightarrow> ((Some err, []), w3)
           | ((None, paths, readmeFilename), w3) \<Rightarrow>
               (case saveAll e pkg pkgVersion tmpdir paths [] w3 of
                  ((Some err, files), w4) \<Rightarrow> ((Some err, files), w4)
                | ((None, files), w4) \<Rightarrow>
                    (let w5 = emit (LogInfo ''success'') w4 in
                     if readmeFilename \<noteq> [] then
                       (let readmeFile = join e tmpdir readmeFilename;
                            w6 = emit (SaveReadme pkgVersion readmeFile) w5 in
                        case savePackageVersionReadme e pkgVersion readmeFile of
                          Some err \<Rightarrow> ((Some err, files), w6)
                        | None \<Rightarrow> ((None, files), w6))
                     else ((None, files), w5)))))"

text \<open>The \<^verbatim>\<open>catch\<close> block: only the bad-archive error is turned into a return.\<close>

definition syncCatch ::
  "(error option \<times> PackageVersionFile list) \<times> world
     \<Rightarrow> (error + PackageVersionFile list) \<times> world" where
  "syncCatch r =
     (case r of
        ((None, files), w) \<Rightarrow> (Inr files, w)
      | ((Some err, files), w) \<Rightarrow>
          (let w1 = emit (LogWarn ''error'') w in
           if code err = Some ''TAR_BAD_ARCHIVE'' then (Inr files, w1) else (Inl err, w1)))"

text \<open>
  The \<^verbatim>\<open>finally\<close> block: its own \<^verbatim>\<open>try\<close> removes the tarball and then the
  directory, its \<^verbatim>\<open>catch\<close> logs whatever the removal throws.
\<close>

definition syncFinally :: "env \<Rightarrow> jsstring \<Rightarrow> jsstring \<Rightarrow> world \<Rightarrow> world" where
  "syncFinally e tmpdir tarFile w =
     (case fs_rm e tarFile w of
        (Some err, w1) \<Rightarrow> emit (LogWarn ''remove tmpdir'') w1
      | (None, w1) \<Rightarrow>
          (case fs_rm e tmpdir w1 of
             (Some err, w2) \<Rightarrow> emit (LogWarn ''remove tmpdir'') w2
           | (None, w2) \<Rightarrow> w2))"

definition tempDirName :: "env \<Rightarrow> Package \<Rightarrow> PackageVersion \<Rightarrow> jsstring" where
  "tempDirName e pkg pkgVersion =
     js ''unpkg_'' @ js_replace SLASH (js ''_'') (fullname pkg) @ js ''@''
       @ version pkgVersion @ js ''_'' @ randomUUID e"

definition syncPackageVersionFiles ::
  "env \<Rightarrow> PackageVersion \<Rightarrow> world \<Rightarrow> (error + PackageVersionFile list) \<times> world" where
  "syncPackageVersionFiles e pkgVersion w =
     (let w1 = emit (FindPackage (packageId pkgVersion)) w in
      case findPackageByPackageId e (packageId pkgVersion) of
        None \<Rightarrow> (Inr [], w1)
      | Some pkg \<Rightarrow>
          (let dname = tempDirName e pkg pkgVersion;
               w2 = emit (CreateTempDir (dataDir e) dname) w1 in
           case createTempDir e (dataDir e) dname of
             Inl err \<Rightarrow> (Inl err, w2)
           | Inr tmpdir \<Rightarrow>
               (let tarFile = tmpdir @ js ''.tgz'';
                    w3 = w2\<lparr>tmpfs := tmpfs w2 @ [tmpdir]\<rparr> in
                case syncCatch (syncTry e pkg pkgVersion tmpdir tarFile w3) of
                  (res, w4) \<Rightarrow> (res, syncFinally e tmpdir tarFile w4))))"

definition ensurePackageVersionFilesSync ::
  "env \<Rightarrow> PackageVersion \<Rightarrow> world \<Rightarrow> (error + unit) \<times> world" where
  "ensurePackageVersionFilesSync e pkgVersion w =
     (let w1 = emit (HasFiles (packageVersionId pkgVersion)) w;
          hasFiles = repo_hasPackageVersionFiles (index w1) (packageVersionId pkgVersion) in
      if \<not> hasFiles then
        (case syncPackageVersionFiles e pkgVersion w1 of
           (Inl err, w2) \<Rightarrow> (Inl err, w2)
         | (Inr files, w2) \<Rightarrow> (Inr (), w2))
      else (Inr (), w1))"

definition listPackageVersionFiles ::
  "env \<Rightarrow> PackageVersion \<Rightarrow> jsstring \<Rightarrow> world \<Rightarrow> (error + PackageVersionFile list) \<times> world" where
  "listPackageVersionFiles e pkgVersion d w =
     (case ensurePackageVersionFilesSync e pkgVersion w of
        (Inl err, w1) \<Rightarrow> (Inl err, w1)
      | (Inr u, w1) \<Rightarrow>
          (Inr (repo_listPackageVersionFiles (index w1) (packageVersionId pkgVersion) d),
           emit (ListFiles (packageVersionId pkgVersion) d) w1))"

definition showPackageVersionFile ::
  "env \<Rightarrow> PackageVersion \<Rightarrow> jsstring \<Rightarrow> world
     \<Rightarrow> (error + PackageVersionFile option) \<times> world" where
  "showPackageVersionFile e pkgVersion path w =
     (case ensurePackageVersionFilesSync e pkgVersion w of
        (Inl err, w1) \<Rightarrow> (Inl err, w1)
      | (Inr u, w1) \<Rightarrow>
          (case getDirectoryAndName path of (d, n) \<Rightarrow>
             (Inr (repo_findPackageVersionFile (index w1) (packageVersionId pkgVersion) d n),
              emit (FindFile (packageVersionId pkgVersion) d n) w1)))"

section \<open>Vocabulary of the properties\<close>

text \<open>Classes of events: blob writes, index writes, the README hand-over, the events of
  materializing one file, and the events of the cleanup.\<close>

fun isBlobWrite :: "event \<Rightarrow> bool" where
  "isBlobWrite (SaveDist d p) = True"
| "isBlobWrite ev = False"

fun isIndexWrite :: "event \<Rightarrow> bool" where
  "isIndexWrite (CreateFile f) = True"
| "isIndexWrite ev = False"

fun isReadmeSave :: "event \<Rightarrow> bool" where
  "isReadmeSave (SaveReadme v p) = True"
| "isReadmeSave ev = False"

fun isFileEvent :: "event \<Rightarrow> bool" where
  "isFileEvent (FindFile v d n) = True"
| "isFileEvent (Stat p) = True"
| "isFileEvent (CalculateIntegrity p) = True"
| "isFileEvent (SaveDist d p) = True"
| "isFileEvent (CreateFile f) = True"
| "isFileEvent (LogInfo s) = True"
| "isFileEvent ev = False"

fun isCleanupEvent :: "event \<Rightarrow> bool" where
  "isCleanupEvent (Rm p) = True"
| "isCleanupEvent (LogWarn s) = True"
| "isCleanupEvent ev = False"

text \<open>
  The members the spec keeps: file members whose path has no hidden-directory segment.
  \<open>manifest\<close> is the spec's ordered manifest of normalized paths, \<open>firstReadme\<close> the
  first stripped name among them that is a README candidate (empty when there is none).
\<close>

definition retained :: "tar_entry \<Rightarrow> bool" where
  "retained entry =
     (entry_type entry = ''File'' \<and> \<not> js_includes (entry_path entry) (js ''/./''))"

definition manifest :: "tar_entry list \<Rightarrow> jsstring list" where
  "manifest entries =
     map (\<lambda>entry. js ''/'' @ stripFirst (entry_path entry)) (filter retained entries)"

definition firstReadme :: "tar_entry list \<Rightarrow> jsstring" where
  "firstReadme entries =
     (case find isReadme (map (\<lambda>entry. stripFirst (entry_path entry)) (filter retained entries)) of
        None \<Rightarrow> []
      | Some filename \<Rightarrow> filename)"

text \<open>The index row of a path, and the lookup event of a path.\<close>

definition indexed ::
  "PackageVersionFile list \<Rightarrow> PackageVersion \<Rightarrow> jsstring \<Rightarrow> PackageVersionFile option" where
  "indexed rows pv path =
     repo_findPackageVersionFile rows (packageVersionId pv) (dirname path) (basename path)"

definition findEvent :: "PackageVersion \<Rightarrow> jsstring \<Rightarrow> event" where
  "findEvent pv path = FindFile (packageVersionId pv) (dirname path) (basename path)"

text \<open>No collaborator of the materializer fails: stat, digest, blob store, index insert.\<close>

definition collaboratorsSucceed :: "env \<Rightarrow> bool" where
  "collaboratorsSucceed e =
     ((\<forall>p. \<exists>sz. stat e p = Inr sz)
      \<and> (\<forall>p. \<exists>h. calculateIntegrity e p = Inr h)
      \<and> (\<forall>d p. saveDist e d p = None)
      \<and> (\<forall>f. insertFault e f = None))"

text \<open>The world in which the try block starts: package looked up, directory created.\<close>

definition prepared :: "env \<Rightarrow> Package \<Rightarrow> PackageVersion \<Rightarrow> jsstring \<Rightarrow> world \<Rightarrow> world" where
  "prepared e pkg pv t w =
     (let w2 = emit (CreateTempDir (dataDir e) (tempDirName e pkg pv))
                 (emit (FindPackage (packageId pv)) w)
      in w2\<lparr>tmpfs := tmpfs w2 @ [t]\<rparr>)"

text \<open>A version is synced when every path of its manifest has an index row.\<close>

definition synced :: "env \<Rightarrow> PackageVersion \<Rightarrow> world \<Rightarrow> bool" where
  "synced e pv w = list_all (\<lambda>p. indexed (index w) pv p \<noteq> None) (manifest (tarEntries e))"

text \<open>
  A concrete run, after the spec's example: version \<open>1.0.0\<close> of package \<open>foo\<close>, whose
  tarball holds \<open>package/index.js\<close> and \<open>package/README.md\<close>, here with the wrapper
  directory itself, a second README candidate and a member under a hidden directory.
\<close>

definition demoPackage :: Package where
  "demoPackage = \<lparr>pkg_packageId = js ''p1'', fullname = js ''foo''\<rparr>"

definition demoVersion :: PackageVersion where
  "demoVersion =
     \<lparr>packageId = js ''p1'', packageVersionId = js ''v1'', version = js ''1.0.0'',
      tarDist = \<lparr>dist_fullname = js ''foo'', dist_path = js ''/foo-1.0.0.tgz'',
                 dist_version = js ''1.0.0'', dist_size = 15, dist_shasum = js ''s'',
                 dist_integrity = js ''i''\<rparr>,
      publishTime = 7\<rparr>"

definition demoEntries :: "tar_entry list" where
  "demoEntries =
     [\<lparr>entry_type = ''Directory'', entry_path = js ''package/''\<rparr>,
      \<lparr>entry_type = ''File'', entry_path = js ''package/index.js''\<rparr>,
      \<lparr>entry_type = ''File'', entry_path = js ''package/README.md''\<rparr>,
      \<lparr>entry_type = ''File'', entry_path = js ''package/./x''\<rparr>,
      \<lparr>entry_type = ''File'', entry_path = js ''package/readme.md''\<rparr>]"

definition demoJoin :: "jsstring \<Rightarrow> jsstring \<Rightarrow> jsstring" where
  "demoJoin a b =
     (case b of [] \<Rightarrow> a | c # cs \<Rightarrow> if c = SLASH then a @ b else a @ [SLASH] @ b)"

definition demoEnv :: env where
  "demoEnv =
     \<lparr>findPackageByPackageId = (\<lambda>i. if i = js ''p1'' then Some demoPackage else None),
      dataDir = js ''/data'',
      randomUUID = js ''u'',
      createTempDir = (\<lambda>base n. Inr (js ''/data/t'')),
      downloadDistToFile = (\<lambda>d p. None),
      tarEntries = demoEntries,
      tarFailure = None,
      join = demoJoin,
      stat = (\<lambda>p. Inr 10),
      calculateIntegrity = (\<lambda>p. Inr (js ''s'', js ''i'')),
      saveDist = (\<lambda>d p. None),
      mimeLookup = (\<lambda>p. js ''text/plain''),
      insertFault = (\<lambda>f. None),
      savePackageVersionReadme = (\<lambda>v p. None),
      rm = (\<lambda>p. None)\<rparr>"

text \<open>The index row of \<open>/index.js\<close> in that run.\<close>

definition demoRow :: PackageVersionFile where
  "demoRow =
     \<lparr>file_packageVersionId = js ''v1'', directory = js ''/'', name = js ''index.js'',
      dist = \<lparr>dist_fullname = js ''foo'', dist_path = js ''/index.js'',
               dist_version = js ''1.0.0'', dist_size = 10, dist_shasum = js ''s'',
               dist_integrity = js ''i''\<rparr>,
      contentType = js ''text/plain'', mtime = 7\<rparr>"

text \<open>The same run with \<open>package/index.js\<close> as the only member, and an I/O error.\<close>

definition demoEnvOne :: env where
  "demoEnvOne =
     demoEnv\<lparr>tarEntries := [\<lparr>entry_type = ''File'', entry_path = js ''package/index.js''\<rparr>]\<rparr>"

definition EIO :: error where
  "EIO = Error (Some ''EIO'') ''i/o error''"

text \<open>
  A truncated gzip tarball of the same version: the extractor reports the members it has
  read and then fails with the decompressor's error, whose code is \<open>Z_BUF_ERROR\<close>, not
  the bad-archive code.
\<close>

definition Z_BUF_ERROR :: error where
  "Z_BUF_ERROR = Error (Some ''Z_BUF_ERROR'') ''unexpected end of file''"

definition truncatedEnv :: env where
  "truncatedEnv =
     demoEnv\<lparr>tarEntries := [\<lparr>entry_type = ''Directory'', entry_path = js ''package/''\<rparr>,
                            \<lparr>entry_type = ''File'', entry_path = js ''package/index.js''\<rparr>],
              tarFailure := Some Z_BUF_ERROR\<rparr>"

definition emptyWorld :: world where
  "emptyWorld = \<lparr>index = [], tmpfs = [], trace = []\<rparr>"

section \<open>Strings and paths\<close>

lemma js_slash: "js ''/'' = [SLASH]"
  by (simp add: js_def SLASH_def)

lemma js_split_seg:
  "sep \<notin> set seg \<Longrightarrow> js_split sep (seg @ sep # rest) = seg # js_split sep rest"
  by (induction seg) auto

lemma js_split_noslash: "sep \<notin> set s \<Longrightarrow> js_split sep s = [s]"
  by (induction s) auto

lemma js_split_nonempty: "js_split sep s \<noteq> []"
  by (induction s) (auto split: list.splits)

lemma js_join_split: "js_join [sep] (js_split sep s) = s"
proof (induction s)
  case Nil
  show ?case by simp
next
  case (Cons c cs)
  show ?case
  proof (cases "c = sep")
    case True
    obtain x xs where sp: "js_split sep cs = x # xs"
      using js_split_nonempty [of sep cs] by (cases "js_split sep cs") auto
    with True Cons show ?thesis by simp
  next
    case False
    obtain x xs where sp: "js_split sep cs = x # xs"
      using js_split_nonempty [of sep cs] by (cases "js_split sep cs") auto
    with False Cons show ?thesis by (cases xs) auto
  qed
qed

lemma stripFirst_seg: "SLASH \<notin> set seg \<Longrightarrow> stripFirst (seg @ SLASH # rest) = rest"
  by (simp add: stripFirst_def js_split_seg js_slash js_join_split)

lemma stripFirst_noslash: "SLASH \<notin> set p \<Longrightarrow> stripFirst p = []"
  by (simp add: stripFirst_def js_split_noslash)

lemma dirname_scan_hit:
  "D \<noteq> [] \<Longrightarrow> SLASH \<notin> set n \<Longrightarrow> k \<le> length n \<Longrightarrow> (k = 0 \<longrightarrow> \<not> m)
     \<Longrightarrow> dirname_scan (D @ SLASH # n) (length D + k) m = Some (length D)"
proof (induction k arbitrary: m)
  case 0
  then obtain j where j: "length D = Suc j" by (cases D) auto
  have "(D @ SLASH # n) ! length D = SLASH" by simp
  with 0 j show ?case by simp
next
  case (Suc k)
  have "(D @ SLASH # n) ! Suc (length D + k) = n ! k"
    by (simp add: nth_append)
  moreover have "n ! k \<noteq> SLASH" using Suc.prems by (metis Suc_le_lessD nth_mem)
  ultimately show ?case using Suc by simp
qed

lemma dirname_scan_root:
  "SLASH \<notin> set n \<Longrightarrow> k \<le> length n \<Longrightarrow> dirname_scan (c # n) k m = None"
proof (induction k arbitrary: m)
  case 0
  show ?case by simp
next
  case (Suc k)
  have "n ! k \<noteq> SLASH" using Suc.prems by (metis Suc_le_lessD nth_mem)
  with Suc show ?case by simp
qed

lemma dirname_root: "SLASH \<notin> set n \<Longrightarrow> dirname (SLASH # n) = js ''/''"
  by (simp add: dirname_def dirname_scan_root)

lemma dirname_dir:
  assumes "D \<noteq> []" "D \<noteq> [SLASH]" "n \<noteq> []" "SLASH \<notin> set n"
  shows "dirname (D @ SLASH # n) = D"
proof -
  have "dirname_scan (D @ SLASH # n) (length D + length n) True = Some (length D)"
    using assms by (intro dirname_scan_hit) auto
  moreover have "\<not> ((D @ SLASH # n) ! 0 = SLASH \<and> length D = 1)"
    using assms by (cases D) auto
  ultimately show ?thesis by (auto simp add: dirname_def js_slice_def)
qed

lemma basename_scan_hit:
  "SLASH \<notin> set n \<Longrightarrow> k \<le> length n
     \<Longrightarrow> basename_scan (D @ SLASH # n) (Suc (length D + k)) (Some E) False = (Suc (length D), Some E)"
proof (induction k)
  case 0
  show ?case by simp
next
  case (Suc k)
  have "(D @ SLASH # n) ! Suc (length D + k) = n ! k"
    by (simp add: nth_append)
  moreover have "n ! k \<noteq> SLASH" using Suc.prems by (metis Suc_le_lessD nth_mem)
  ultimately show ?case using Suc by simp
qed

lemma basename_file:
  assumes "n \<noteq> []" "SLASH \<notin> set n"
  shows "basename (D @ SLASH # n) = n"
proof -
  obtain k where k: "length n = Suc k" using assms by (cases n) auto
  have "(D @ SLASH # n) ! Suc (length D + k) = n ! k"
    by (simp add: nth_append)
  moreover have "n ! k \<noteq> SLASH" using assms k by (metis lessI nth_mem)
  ultimately have "basename_scan (D @ SLASH # n) (length (D @ SLASH # n)) None True
      = basename_scan (D @ SLASH # n) (Suc (length D + k)) (Some (Suc (Suc (length D + k)))) False"
    using k by simp
  also have "\<dots> = (Suc (length D), Some (Suc (Suc (length D + k))))"
    using assms k by (intro basename_scan_hit) auto
  finally show ?thesis using k by (simp add: basename_def js_slice_def)
qed

subsection \<open>Percent-encoding\<close>

lemma uriUnescaped_ascii: "uriUnescaped c \<Longrightarrow> c < 128"
  by (auto simp: uriUnescaped_def js_def)

lemma hexDigit_ascii: "hexDigit n < 128"
proof -
  have "hexDigit n \<in> set (js ''0123456789ABCDEF'')"
    unfolding hexDigit_def by (rule nth_mem) (simp add: js_def)
  then show ?thesis by (auto simp: js_def)
qed

lemma percent_ascii: "c \<in> set (percent octet) \<Longrightarrow> c < 128"
  by (auto simp: percent_def js_def hexDigit_ascii)

lemma escaped_ascii: "c \<in> set (escaped cp) \<Longrightarrow> c < 128"
  unfolding escaped_def by (auto dest: percent_ascii)

lemma encodeURI_ascii: "encodeURI s = Inr t \<Longrightarrow> c \<in> set t \<Longrightarrow> c < 128"
proof (induction s arbitrary: t rule: encodeURI.induct)
  case 1
  then show ?case by simp
next
  case (2 c' cs)
  then show ?case
    by (auto simp: andThen_def uriUnescaped_ascii split: if_splits sum.splits list.splits
        dest: escaped_ascii)
qed

lemma chi_key:
  "encodeURI (js ''/resource/ToOneFrom'' @ [0x3C7] @ js ''.js'') = Inr (js ''/resource/ToOneFrom%CF%87.js'')"
  by (simp add: js_def uriUnescaped_def isTrailSurrogate_def isLeadSurrogate_def andThen_def
      escaped_def percent_def utf8_def hexDigit_def)

lemma chi_name:
  "getDirectoryAndName (js ''/resource/ToOneFrom'' @ [0x3C7] @ js ''.js'') = (js ''/resource'', js ''ToOneFrom'' @ [0x3C7] @ js ''.js'')"
  by (simp add: getDirectoryAndName_def dirname_def basename_def js_def SLASH_def js_slice_def)

section \<open>Materializing one file\<close>

lemma index_emit [simp]: "index (emit ev w) = index w"
  by (simp add: emit_def)

lemma tmpfs_emit [simp]: "tmpfs (emit ev w) = tmpfs w"
  by (simp add: emit_def)

lemma trace_emit [simp]: "trace (emit ev w) = trace w @ [ev]"
  by (simp add: emit_def)

lemma find_sameKey:
  "repo_findPackageVersionFile rows vid d n = Some f
     \<Longrightarrow> file_packageVersionId f = vid \<and> directory f = d \<and> name f = n"
  by (auto simp: repo_findPackageVersionFile_def sameKey_def find_Some_iff)

lemma find_extend:
  "repo_findPackageVersionFile rows vid d n = Some f
     \<Longrightarrow> repo_findPackageVersionFile (rows @ ext) vid d n = Some f"
  by (induction rows) (auto simp: repo_findPackageVersionFile_def)

lemma find_fresh:
  "repo_findPackageVersionFile rows vid d n = None \<Longrightarrow> sameKey vid d n f
     \<Longrightarrow> repo_findPackageVersionFile (rows @ [f]) vid d n = Some f"
  by (induction rows) (auto simp: repo_findPackageVersionFile_def split: if_splits)

text \<open>A path that is already indexed: one lookup, nothing else.\<close>

lemma save_found:
  assumes "repo_findPackageVersionFile (index w) (packageVersionId pv) (dirname path) (basename path) = Some f"
  shows "savePackageVersionFile e pkg pv path lf w =
           (Inr f, emit (FindFile (packageVersionId pv) (dirname path) (basename path)) w)"
  using assms by (simp add: savePackageVersionFile_def getDirectoryAndName_def)

text \<open>What a successful call returns, whichever branch it took.\<close>

lemma save_result:
  assumes "savePackageVersionFile e pkg pv path lf w = (Inr f, w')"
  shows "file_packageVersionId f = packageVersionId pv \<and> directory f = dirname path
           \<and> name f = basename path"
  using assms
  by (auto simp: savePackageVersionFile_def getDirectoryAndName_def Let_def
        repo_createPackageVersionFile_def
      split: option.splits sum.splits prod.splits if_splits dest: find_sameKey)

lemma save_index_ext:
  assumes "savePackageVersionFile e pkg pv path lf w = (r, w')"
  shows "\<exists>ext. index w' = index w @ ext"
  using assms
  by (auto simp: savePackageVersionFile_def getDirectoryAndName_def Let_def
        repo_createPackageVersionFile_def
      split: option.splits sum.splits prod.splits if_splits)

lemma save_ok:
  assumes "collaboratorsSucceed e" "encodeURI path = Inr dp"
  shows "\<exists>f w'. savePackageVersionFile e pkg pv path lf w = (Inr f, w')
           \<and> repo_findPackageVersionFile (index w') (packageVersionId pv) (dirname path)
                (basename path) = Some f"
proof (cases "repo_findPackageVersionFile (index w) (packageVersionId pv) (dirname path) (basename path)")
  case (Some f)
  then show ?thesis by (simp add: save_found)
next
  case None
  obtain sz where sz: "stat e lf = Inr sz"
    using assms(1) unfolding collaboratorsSucceed_def by blast
  obtain sha integ where h: "calculateIntegrity e lf = Inr (sha, integ)"
    using assms(1) unfolding collaboratorsSucceed_def by (metis surj_pair)
  have sd: "\<And>d. saveDist e d lf = None" and ins: "\<And>f. insertFault e f = None"
    using assms(1) by (auto simp: collaboratorsSucceed_def)
  show ?thesis
    using None sz h assms(2) sd ins
    by (simp add: savePackageVersionFile_def getDirectoryAndName_def Let_def
        repo_createPackageVersionFile_def find_fresh sameKey_def)
qed

section \<open>Extraction and the loop over the manifest\<close>

lemma isReadme_nonempty: "isReadme filename \<Longrightarrow> filename \<noteq> []"
  by (auto simp: isReadme_def js_def)

lemma onentry_fold:
  "foldl (\<lambda>s entry. onentry entry s) (ps, r) entries =
     (ps @ manifest entries, if r \<noteq> [] then r else firstReadme entries)"
proof (induction entries arbitrary: ps r)
  case Nil
  show ?case by (simp add: manifest_def firstReadme_def)
next
  case (Cons en entries)
  show ?case
  proof (cases "retained en")
    case False
    then have "onentry en (ps, r) = (ps, r)"
      by (auto simp: onentry_def retained_def)
    with False Cons show ?thesis by (simp add: manifest_def firstReadme_def)
  next
    case True
    then have step: "onentry en (ps, r) =
        (ps @ [js ''/'' @ stripFirst (entry_path en)],
         if r = [] \<and> isReadme (stripFirst (entry_path en)) then stripFirst (entry_path en) else r)"
      by (auto simp: onentry_def retained_def Let_def)
    show ?thesis
      using True isReadme_nonempty [of "stripFirst (entry_path en)"]
      by (simp add: step Cons manifest_def firstReadme_def)
  qed
qed

lemma saveAll_index_ext:
  "saveAll e pkg pv t paths files w = (r, w') \<Longrightarrow> \<exists>ext. index w' = index w @ ext"
proof (induction paths arbitrary: files w)
  case Nil
  then show ?case by simp
next
  case (Cons p ps)
  obtain r1 w1 where s: "savePackageVersionFile e pkg pv p (join e t p) w = (r1, w1)"
    by (cases "savePackageVersionFile e pkg pv p (join e t p) w") auto
  from save_index_ext [OF s] obtain ext1 where e1: "index w1 = index w @ ext1" by blast
  show ?case
  proof (cases r1)
    case (Inl err)
    with Cons.prems s e1 show ?thesis by auto
  next
    case (Inr f)
    with Cons.prems s have "saveAll e pkg pv t ps (files @ [f]) w1 = (r, w')" by simp
    from Cons.IH [OF this] e1 show ?thesis by auto
  qed
qed

text \<open>With every collaborator answering, the loop materializes every path and leaves
  every path indexed.\<close>

lemma saveAll_ok:
  assumes "collaboratorsSucceed e" "\<forall>p\<in>set paths. \<exists>dp. encodeURI p = Inr dp"
  shows "\<exists>fs w'. saveAll e pkg pv t paths files w = ((None, files @ fs), w')
           \<and> map (indexed (index w') pv) paths = map Some fs"
  using assms(2)
proof (induction paths arbitrary: files w)
  case Nil
  show ?case by simp
next
  case (Cons p ps)
  from Cons.prems obtain dp where dp: "encodeURI p = Inr dp" by auto
  from save_ok [OF assms(1) dp] obtain f w1 where
    s: "savePackageVersionFile e pkg pv p (join e t p) w = (Inr f, w1)"
    and i: "indexed (index w1) pv p = Some f"
    unfolding indexed_def by blast
  from Cons.prems have "\<forall>p\<in>set ps. \<exists>dp. encodeURI p = Inr dp" by simp
  from Cons.IH [OF this] obtain fs w' where
    a: "saveAll e pkg pv t ps (files @ [f]) w1 = ((None, (files @ [f]) @ fs), w')"
    and m: "map (indexed (index w') pv) ps = map Some fs" by blast
  from saveAll_index_ext [OF a] obtain ext where "index w' = index w1 @ ext" by blast
  with i have "indexed (index w') pv p = Some f"
    by (simp add: indexed_def find_extend)
  with s a m have "saveAll e pkg pv t (p # ps) files w = ((None, files @ (f # fs)), w')
      \<and> map (indexed (index w') pv) (p # ps) = map Some (f # fs)"
    by simp
  then show ?case by blast
qed

text \<open>When every path is indexed already, the loop only looks the rows up.\<close>

lemma saveAll_found:
  assumes "\<forall>p\<in>set paths. indexed (index w) pv p \<noteq> None"
  shows "saveAll e pkg pv t paths files w =
           ((None, files @ map (\<lambda>p. the (indexed (index w) pv p)) paths),
            w\<lparr>trace := trace w @ map (findEvent pv) paths\<rparr>)"
  using assms
proof (induction paths arbitrary: files w)
  case Nil
  show ?case by simp
next
  case (Cons p ps)
  from Cons.prems obtain f where f: "indexed (index w) pv p = Some f" by auto
  let ?w1 = "emit (findEvent pv p) w"
  have s: "savePackageVersionFile e pkg pv p (join e t p) w = (Inr f, ?w1)"
    using f by (simp add: indexed_def findEvent_def save_found)
  have "\<forall>q\<in>set ps. indexed (index ?w1) pv q \<noteq> None" using Cons.prems by simp
  from Cons.IH [OF this, of "files @ [f]"] s f
  show ?case by (simp add: emit_def)
qed

section \<open>The orchestrator\<close>

lemma finally_index: "index (syncFinally e t f w) = index w"
  by (simp add: syncFinally_def fs_rm_def Let_def split: option.splits)

lemma finally_trace:
  "\<exists>evs. trace (syncFinally e t f w) = trace w @ Rm f # evs \<and> list_all isCleanupEvent evs"
  by (simp add: syncFinally_def fs_rm_def Let_def split: option.splits)

lemma finally_removed:
  "rm e f = None \<Longrightarrow> rm e t = None
     \<Longrightarrow> f \<notin> set (tmpfs (syncFinally e t f w)) \<and> t \<notin> set (tmpfs (syncFinally e t f w))"
  by (simp add: syncFinally_def fs_rm_def Let_def)

lemma finally_second_rm:
  "rm e f = None \<Longrightarrow> Rm t \<in> set (trace (syncFinally e t f w))"
  by (simp add: syncFinally_def fs_rm_def Let_def split: option.splits)

lemma finally_logged:
  "rm e f \<noteq> None \<or> rm e t \<noteq> None
     \<Longrightarrow> last (trace (syncFinally e t f w)) = LogWarn ''remove tmpdir''"
  by (auto simp: syncFinally_def fs_rm_def Let_def split: option.splits)

lemma sync_unfold:
  assumes "findPackageByPackageId e (packageId pv) = Some pkg"
    and "createTempDir e (dataDir e) (tempDirName e pkg pv) = Inr t"
  shows "syncPackageVersionFiles e pv w =
           (fst (syncCatch (syncTry e pkg pv t (t @ js ''.tgz'') (prepared e pkg pv t w))),
            syncFinally e t (t @ js ''.tgz'')
              (snd (syncCatch (syncTry e pkg pv t (t @ js ''.tgz'') (prepared e pkg pv t w)))))"
  using assms
  by (simp add: syncPackageVersionFiles_def prepared_def Let_def split: prod.splits)

lemma prepared_index [simp]: "index (prepared e pkg pv t w) = index w"
  by (simp add: prepared_def Let_def)

lemma prepared_trace:
  "trace (prepared e pkg pv t w) =
     trace w @ [FindPackage (packageId pv), CreateTempDir (dataDir e) (tempDirName e pkg pv)]"
  by (simp add: prepared_def Let_def)

text \<open>The try block on a tarball that extracts, in terms of the loop.\<close>

lemma syncTry_extracted:
  assumes "downloadDistToFile e (tarDist pv) tf = None" "tarFailure e = None"
  shows "syncTry e pkg pv t tf w =
     (let w3 = emit (TarExtract tf t) (emit (LogInfo ''extract-start'')
                 ((emit (Download (tarDist pv) tf) (emit (LogInfo ''download-start'') w))
                    \<lparr>tmpfs := tmpfs w @ [tf]\<rparr>))
      in case saveAll e pkg pv t (manifest (tarEntries e)) [] w3 of
           ((Some err, files), w4) \<Rightarrow> ((Some err, files), w4)
         | ((None, files), w4) \<Rightarrow>
             (let w5 = emit (LogInfo ''success'') w4 in
              if firstReadme (tarEntries e) \<noteq> [] then
                (let readmeFile = join e t (firstReadme (tarEntries e));
                     w6 = emit (SaveReadme pv readmeFile) w5 in
                 case savePackageVersionReadme e pv readmeFile of
                   Some err \<Rightarrow> ((Some err, files), w6)
                 | None \<Rightarrow> ((None, files), w6))
              else ((None, files), w5)))"
  using assms
  by (simp add: syncTry_def tar_extract_def onentry_fold Let_def)


text \<open>A first, undisturbed sync returns one row per manifest path and leaves each indexed.\<close>

lemma sync_first:
  assumes pkg: "findPackageByPackageId e (packageId pv) = Some pkg"
    and tmp: "createTempDir e (dataDir e) (tempDirName e pkg pv) = Inr t"
    and dl: "downloadDistToFile e (tarDist pv) (t @ js ''.tgz'') = None"
    and tar: "tarFailure e = None"
    and ok: "collaboratorsSucceed e"
    and enc: "\<forall>p\<in>set (manifest (tarEntries e)). \<exists>dp. encodeURI p = Inr dp"
    and readme: "\<forall>p. savePackageVersionReadme e pv p = None"
  shows "\<exists>fs w'. syncPackageVersionFiles e pv w = (Inr fs, w')
           \<and> map (indexed (index w') pv) (manifest (tarEntries e)) = map Some fs"
proof -
  let ?tf = "t @ js ''.tgz''"
  let ?w3 = "emit (TarExtract ?tf t) (emit (LogInfo ''extract-start'')
                 ((emit (Download (tarDist pv) ?tf) (emit (LogInfo ''download-start'') (prepared e pkg pv t w)))
                    \<lparr>tmpfs := tmpfs (prepared e pkg pv t w) @ [?tf]\<rparr>))"
  from saveAll_ok [OF ok enc, of pkg pv t "[]" ?w3] obtain fs w4 where
    a: "saveAll e pkg pv t (manifest (tarEntries e)) [] ?w3 = ((None, fs), w4)"
    and m: "map (indexed (index w4) pv) (manifest (tarEntries e)) = map Some fs"
    by auto
  have "\<exists>w5. syncTry e pkg pv t ?tf (prepared e pkg pv t w) = ((None, fs), w5) \<and> index w5 = index w4"
    using a readme by (simp add: syncTry_extracted [OF dl tar] Let_def)
  then obtain w5 where
    t5: "syncTry e pkg pv t ?tf (prepared e pkg pv t w) = ((None, fs), w5)"
    and i5: "index w5 = index w4" by blast
  have "syncPackageVersionFiles e pv w = (Inr fs, syncFinally e t ?tf w5)"
    by (simp add: sync_unfold [OF pkg tmp] t5 syncCatch_def)
  moreover have "index (syncFinally e t ?tf w5) = index w4"
    by (simp add: finally_index i5)
  ultimately show ?thesis using m by auto
qed

text \<open>A sync of a version whose manifest is indexed already.\<close>

lemma sync_synced:
  assumes pkg: "findPackageByPackageId e (packageId pv) = Some pkg"
    and tmp: "createTempDir e (dataDir e) (tempDirName e pkg pv) = Inr t"
    and dl: "downloadDistToFile e (tarDist pv) (t @ js ''.tgz'') = None"
    and tar: "tarFailure e = None"
    and all: "synced e pv w"
    and readme: "\<forall>p. savePackageVersionReadme e pv p = None"
  shows "\<exists>w' evs. syncPackageVersionFiles e pv w =
             (Inr (map (\<lambda>p. the (indexed (index w) pv p)) (manifest (tarEntries e))), w')
           \<and> index w' = index w \<and> trace w' = trace w @ evs
           \<and> list_all (\<lambda>ev. \<not> isBlobWrite ev \<and> \<not> isIndexWrite ev) evs
           \<and> Download (tarDist pv) (t @ js ''.tgz'') \<in> set evs
           \<and> TarExtract (t @ js ''.tgz'') t \<in> set evs"
proof -
  let ?tf = "t @ js ''.tgz''"
  let ?paths = "manifest (tarEntries e)"
  let ?files = "map (\<lambda>p. the (indexed (index w) pv p)) ?paths"
  let ?w3 = "emit (TarExtract ?tf t) (emit (LogInfo ''extract-start'')
                 ((emit (Download (tarDist pv) ?tf) (emit (LogInfo ''download-start'') (prepared e pkg pv t w)))
                    \<lparr>tmpfs := tmpfs (prepared e pkg pv t w) @ [?tf]\<rparr>))"
  have i3: "index ?w3 = index w" by simp
  have "\<forall>p\<in>set ?paths. indexed (index ?w3) pv p \<noteq> None"
    using all unfolding synced_def i3 by (simp add: list_all_iff)
  from saveAll_found [OF this, of e pkg t "[]"]
  have a: "saveAll e pkg pv t ?paths [] ?w3 =
      ((None, ?files), ?w3\<lparr>trace := trace ?w3 @ map (findEvent pv) ?paths\<rparr>)"
    by (simp only: i3 append_Nil)
  let ?w4 = "?w3\<lparr>trace := trace ?w3 @ map (findEvent pv) ?paths\<rparr>"
  let ?pre = "[FindPackage (packageId pv), CreateTempDir (dataDir e) (tempDirName e pkg pv),
      LogInfo ''download-start'', Download (tarDist pv) ?tf, LogInfo ''extract-start'',
      TarExtract ?tf t]"
  have t4: "trace ?w4 = trace w @ ?pre @ map (findEvent pv) ?paths"
    by (simp add: prepared_trace)
  have "\<exists>w5 evs5. syncTry e pkg pv t ?tf (prepared e pkg pv t w) = ((None, ?files), w5)
      \<and> index w5 = index w \<and> trace w5 = trace ?w4 @ evs5
      \<and> list_all (\<lambda>ev. \<not> isBlobWrite ev \<and> \<not> isIndexWrite ev) evs5"
    using readme by (simp add: syncTry_extracted [OF dl tar] a Let_def del: append.simps)
  then obtain w5 evs5 where
    t5: "syncTry e pkg pv t ?tf (prepared e pkg pv t w) = ((None, ?files), w5)"
    and i5: "index w5 = index w" and tr5: "trace w5 = trace ?w4 @ evs5"
    and n5: "list_all (\<lambda>ev. \<not> isBlobWrite ev \<and> \<not> isIndexWrite ev) evs5" by blast
  obtain evs6 where
    tr6: "trace (syncFinally e t ?tf w5) = trace w5 @ Rm ?tf # evs6"
    and c6: "list_all isCleanupEvent evs6"
    using finally_trace [of e t ?tf w5] by blast
  have n6: "list_all (\<lambda>ev. \<not> isBlobWrite ev \<and> \<not> isIndexWrite ev) evs6"
    using c6 unfolding list_all_iff
  proof (intro ballI)
    fix ev assume "\<forall>x\<in>set evs6. isCleanupEvent x" "ev \<in> set evs6"
    then have "isCleanupEvent ev" by blast
    then show "\<not> isBlobWrite ev \<and> \<not> isIndexWrite ev" by (cases ev) auto
  qed
  let ?evs = "?pre @ map (findEvent pv) ?paths @ evs5 @ Rm ?tf # evs6"
  have s: "syncPackageVersionFiles e pv w = (Inr ?files, syncFinally e t ?tf w5)"
    by (simp add: sync_unfold [OF pkg tmp] t5 syncCatch_def)
  have "trace (syncFinally e t ?tf w5) = trace w @ ?evs"
    using tr6 tr5 t4 by simp
  moreover have "list_all (\<lambda>ev. \<not> isBlobWrite ev \<and> \<not> isIndexWrite ev) ?evs"
    using n5 n6 by (auto simp: list_all_iff findEvent_def)
  moreover have "Download (tarDist pv) ?tf \<in> set ?evs" "TarExtract ?tf t \<in> set ?evs"
    by simp_all
  moreover have "index (syncFinally e t ?tf w5) = index w"
    by (simp add: finally_index i5)
  ultimately show ?thesis using s by blast
qed

lemma save_fresh_blob:
  assumes "indexed (index w) pv path = None"
    and "savePackageVersionFile e pkg pv path lf w = (Inr f, w')"
  shows "encodeURI path = Inr (dist_path (dist f)) \<and> SaveDist (dist f) lf \<in> set (trace w')"
  using assms
  by (auto simp: savePackageVersionFile_def getDirectoryAndName_def indexed_def Let_def
        repo_createPackageVersionFile_def Package_createPackageVersionFile_def
      split: option.splits sum.splits prod.splits if_splits)

lemma indexed_all:
  assumes "map (indexed rows pv) paths = map Some fs"
  shows "list_all (\<lambda>p. indexed rows pv p \<noteq> None) paths
         \<and> map (\<lambda>p. the (indexed rows pv p)) paths = fs"
  using assms
proof (induction paths arbitrary: fs)
  case Nil
  then show ?case by simp
next
  case (Cons p ps)
  then obtain f fs' where fs: "fs = f # fs'" by (cases fs) auto
  with Cons.prems have "indexed rows pv p = Some f" "map (indexed rows pv) ps = map Some fs'"
    by auto
  with Cons.IH [of fs'] fs show ?case by simp
qed

text \<open>Nothing before the cleanup asks the file system to remove anything.\<close>

lemma save_rm:
  "savePackageVersionFile (e\<lparr>rm := r\<rparr>) pkg pv path lf w = savePackageVersionFile e pkg pv path lf w"
proof -
  have c: "\<And>file w. repo_createPackageVersionFile (e\<lparr>rm := r\<rparr>) file w
      = repo_createPackageVersionFile e file w"
    by (simp add: repo_createPackageVersionFile_def)
  show ?thesis
    by (simp add: savePackageVersionFile_def c Let_def
        cong: prod.case_cong option.case_cong sum.case_cong)
qed

lemma saveAll_rm:
  "saveAll (e\<lparr>rm := r\<rparr>) pkg pv t paths files w = saveAll e pkg pv t paths files w"
  by (induction paths arbitrary: files w)
     (simp_all add: save_rm split: prod.splits sum.splits)

lemma syncTry_rm:
  "syncTry (e\<lparr>rm := r\<rparr>) pkg pv t tf w = syncTry e pkg pv t tf w"
  by (simp add: syncTry_def tar_extract_def saveAll_rm Let_def
      cong: prod.case_cong option.case_cong sum.case_cong if_cong)

lemma prepared_rm: "prepared (e\<lparr>rm := r\<rparr>) pkg pv t w = prepared e pkg pv t w"
  by (simp add: prepared_def tempDirName_def)

lemma save_trace_find:
  assumes "savePackageVersionFile e pkg pv path lf w = (r, w')"
  shows "\<exists>evs. trace w' = trace w @ findEvent pv path # evs \<and> list_all isFileEvent evs"
  using assms
  by (auto simp: savePackageVersionFile_def getDirectoryAndName_def Let_def findEvent_def
        repo_createPackageVersionFile_def
      split: option.splits sum.splits prod.splits if_splits)

lemma saveAll_trace_find:
  "saveAll e pkg pv t paths files w = ((None, fs), w')
     \<Longrightarrow> \<exists>evs. trace w' = trace w @ evs \<and> list_all isFileEvent evs
           \<and> (\<forall>p\<in>set paths. findEvent pv p \<in> set evs)"
proof (induction paths arbitrary: files w)
  case Nil
  then show ?case by simp
next
  case (Cons p ps)
  obtain r1 w1 where s: "savePackageVersionFile e pkg pv p (join e t p) w = (r1, w1)"
    by (cases "savePackageVersionFile e pkg pv p (join e t p) w") auto
  from save_trace_find [OF s] obtain evs1 where
    e1: "trace w1 = trace w @ findEvent pv p # evs1" "list_all isFileEvent evs1" by blast
  show ?case
  proof (cases r1)
    case (Inl err)
    with Cons.prems s show ?thesis by auto
  next
    case (Inr f)
    with Cons.prems s have "saveAll e pkg pv t ps (files @ [f]) w1 = ((None, fs), w')" by simp
    from Cons.IH [OF this] obtain evs2 where
      e2: "trace w' = trace w1 @ evs2" "list_all isFileEvent evs2"
        "\<forall>q\<in>set ps. findEvent pv q \<in> set evs2" by blast
    let ?evs = "findEvent pv p # evs1 @ evs2"
    have "trace w' = trace w @ ?evs" using e1 e2 by simp
    moreover have "list_all isFileEvent ?evs" using e1 e2 by (simp add: findEvent_def)
    moreover have "\<forall>q\<in>set (p # ps). findEvent pv q \<in> set ?evs" using e2 by auto
    ultimately show ?thesis by blast
  qed
qed

lemma fileEvent_not_readme: "isFileEvent ev \<Longrightarrow> \<not> isReadmeSave ev"
  by (cases ev) auto

text \<open>The events of a sync whose materialization succeeds, up to the README hand-over.\<close>

lemma sync_events:
  assumes pkg: "findPackageByPackageId e (packageId pv) = Some pkg"
    and tmp: "createTempDir e (dataDir e) (tempDirName e pkg pv) = Inr t"
    and dl: "downloadDistToFile e (tarDist pv) (t @ js ''.tgz'') = None"
    and tar: "tarFailure e = None"
    and ok: "collaboratorsSucceed e"
    and enc: "\<forall>p\<in>set (manifest (tarEntries e)). \<exists>dp. encodeURI p = Inr dp"
  shows "\<exists>evs1 evs2. trace (snd (syncPackageVersionFiles e pv w)) =
             trace w @ evs1
               @ (if firstReadme (tarEntries e) \<noteq> []
                  then [SaveReadme pv (join e t (firstReadme (tarEntries e)))] else [])
               @ evs2
           \<and> list_all (\<lambda>ev. \<not> isReadmeSave ev) evs1
           \<and> (\<forall>p\<in>set (manifest (tarEntries e)). findEvent pv p \<in> set evs1)
           \<and> list_all isCleanupEvent evs2"
proof -
  let ?tf = "t @ js ''.tgz''"
  let ?paths = "manifest (tarEntries e)"
  let ?rd = "firstReadme (tarEntries e)"
  let ?w3 = "emit (TarExtract ?tf t) (emit (LogInfo ''extract-start'')
                 ((emit (Download (tarDist pv) ?tf) (emit (LogInfo ''download-start'') (prepared e pkg pv t w)))
                    \<lparr>tmpfs := tmpfs (prepared e pkg pv t w) @ [?tf]\<rparr>))"
  let ?pre = "[FindPackage (packageId pv), CreateTempDir (dataDir e) (tempDirName e pkg pv),
      LogInfo ''download-start'', Download (tarDist pv) ?tf, LogInfo ''extract-start'',
      TarExtract ?tf t]"
  let ?mid = "if ?rd \<noteq> [] then [SaveReadme pv (join e t ?rd)] else []"
  from saveAll_ok [OF ok enc, of pkg pv t "[]" ?w3] obtain fs w4 where
    a: "saveAll e pkg pv t ?paths [] ?w3 = ((None, fs), w4)" by auto
  from saveAll_trace_find [OF a] obtain evsF where
    f: "trace w4 = trace ?w3 @ evsF" "list_all isFileEvent evsF"
       "\<forall>p\<in>set ?paths. findEvent pv p \<in> set evsF" by blast
  have t3: "trace ?w3 = trace w @ ?pre" by (simp add: prepared_trace)
  let ?evs1 = "?pre @ evsF @ [LogInfo ''success'']"
  have n1: "list_all (\<lambda>ev. \<not> isReadmeSave ev) ?evs1"
    using f(2) by (auto simp: list_all_iff dest: fileEvent_not_readme)
  have m1: "\<forall>p\<in>set ?paths. findEvent pv p \<in> set ?evs1" using f(3) by simp
  let ?X = "syncCatch (syncTry e pkg pv t ?tf (prepared e pkg pv t w))"
  have "\<exists>evsE. trace (snd ?X) = trace w @ ?evs1 @ ?mid @ evsE \<and> list_all isCleanupEvent evsE"
  proof (cases "?rd \<noteq> [] \<and> savePackageVersionReadme e pv (join e t ?rd) \<noteq> None")
    case True
    then obtain err where err: "savePackageVersionReadme e pv (join e t ?rd) = Some err" by auto
    have "trace (snd (syncCatch (syncTry e pkg pv t ?tf (prepared e pkg pv t w))))
        = trace w @ ?evs1 @ ?mid @ [LogWarn ''error'']"
      using True err
      by (simp add: syncTry_extracted [OF dl tar] a Let_def syncCatch_def f(1) prepared_trace)
    moreover have "list_all isCleanupEvent [LogWarn ''error'']" by simp
    ultimately show ?thesis by blast
  next
    case False
    have "trace (snd (syncCatch (syncTry e pkg pv t ?tf (prepared e pkg pv t w))))
        = trace w @ ?evs1 @ ?mid @ []"
      using False
      by (auto simp: syncTry_extracted [OF dl tar] a Let_def syncCatch_def f(1) prepared_trace)
    moreover have "list_all isCleanupEvent []" by simp
    ultimately show ?thesis by blast
  qed
  then obtain evsE where
    t6: "trace (snd ?X) = trace w @ ?evs1 @ ?mid @ evsE" and cE: "list_all isCleanupEvent evsE"
    by blast
  obtain evsC where
    c: "trace (syncFinally e t ?tf (snd ?X)) = trace (snd ?X) @ Rm ?tf # evsC"
       "list_all isCleanupEvent evsC"
    using finally_trace [of e t ?tf "snd ?X"] by blast
  let ?evs2 = "evsE @ Rm ?tf # evsC"
  have "trace (snd (syncPackageVersionFiles e pv w)) = trace w @ ?evs1 @ ?mid @ ?evs2"
    using c(1) t6 by (simp add: sync_unfold [OF pkg tmp])
  moreover have "list_all isCleanupEvent ?evs2" using cE c(2) by simp
  ultimately show ?thesis using n1 m1 by blast
qed

section \<open>The claims\<close>


lemma demo_retained:
  "filter retained demoEntries =
     [\<lparr>entry_type = ''File'', entry_path = js ''package/index.js''\<rparr>,
      \<lparr>entry_type = ''File'', entry_path = js ''package/README.md''\<rparr>,
      \<lparr>entry_type = ''File'', entry_path = js ''package/readme.md''\<rparr>]"
  by (simp add: demoEntries_def retained_def js_def)

lemma demo_strip:
  "stripFirst (js ''package/index.js'') = js ''index.js''"
  "stripFirst (js ''package/README.md'') = js ''README.md''"
  "stripFirst (js ''package/readme.md'') = js ''readme.md''"
  by (simp_all add: stripFirst_def js_def SLASH_def)

lemma demo_manifest:
  "manifest (tarEntries demoEnv) = [js ''/index.js'', js ''/README.md'', js ''/readme.md'']"
  by (simp add: manifest_def demoEnv_def demo_retained demo_strip) (simp add: js_def)


lemma demo_encodable:
  "\<forall>p\<in>set (manifest (tarEntries demoEnv)). \<exists>dp. encodeURI p = Inr dp"
  by (simp add: demo_manifest) (simp add: js_def uriUnescaped_def andThen_def)

lemma demo_setup:
  "findPackageByPackageId demoEnv (packageId demoVersion) = Some demoPackage"
  "createTempDir demoEnv (dataDir demoEnv) (tempDirName demoEnv demoPackage demoVersion)
     = Inr (js ''/data/t'')"
  "downloadDistToFile demoEnv (tarDist demoVersion) (js ''/data/t'' @ js ''.tgz'') = None"
  "tarFailure demoEnv = None"
  "collaboratorsSucceed demoEnv"
  "\<forall>p. savePackageVersionReadme demoEnv demoVersion p = None"
  by (simp_all add: demoEnv_def demoVersion_def collaboratorsSucceed_def)

lemma demo_index_js:
  "dirname (js ''/index.js'') = js ''/''" "basename (js ''/index.js'') = js ''index.js''"
  "encodeURI (js ''/index.js'') = Inr (js ''/index.js'')"
  by (simp_all add: dirname_def basename_def js_def SLASH_def js_slice_def
      uriUnescaped_def andThen_def)

lemma demo_readme: "firstReadme (tarEntries demoEnv) = js ''README.md''"
proof -
  have "isReadme (js ''README.md'')" "\<not> isReadme (js ''index.js'')"
    by (simp_all add: isReadme_def js_def)
  then show ?thesis
    by (simp add: firstReadme_def demoEnv_def demo_retained demo_strip)
qed

text \<open>
  C9. When the owning package of the version cannot be resolved,
  \<^verbatim>\<open>syncPackageVersionFiles\<close> returns the empty sequence, raises nothing, and has done
  nothing but the package lookup: no temporary directory, no download, no extraction.
\<close>

theorem missing_package_empty:
  assumes "findPackageByPackageId e (packageId pv) = None"
  shows "syncPackageVersionFiles e pv w =
           (Inr [], w\<lparr>trace := trace w @ [FindPackage (packageId pv)]\<rparr>)"
  using assms by (simp add: syncPackageVersionFiles_def emit_def)

theorem missing_package_empty_witness:
  "syncPackageVersionFiles (demoEnv\<lparr>findPackageByPackageId := (\<lambda>i. None)\<rparr>) demoVersion emptyWorld =
     (Inr [], \<lparr>index = [], tmpfs = [], trace = [FindPackage (js ''p1'')]\<rparr>)"
  using missing_package_empty [of "demoEnv\<lparr>findPackageByPackageId := (\<lambda>i. None)\<rparr>" demoVersion emptyWorld]
  by (simp add: demoVersion_def emptyWorld_def)

text \<open>
  C3. Not every corrupt tarball gives the empty result: the catch block turns an error
  into a return only when its code is the bad-archive code. When the extraction fails with
  that code, the sync returns the empty sequence and raises nothing; when it fails with
  any other code, as it does on a truncated gzip stream, the failure is raised to the
  caller unchanged.
\<close>

theorem corrupt_archive_empty:
  assumes "findPackageByPackageId e (packageId pv) = Some pkg"
    and "createTempDir e (dataDir e) (tempDirName e pkg pv) = Inr t"
    and "downloadDistToFile e (tarDist pv) (t @ js ''.tgz'') = None"
    and "tarFailure e = Some err"
  shows "fst (syncPackageVersionFiles e pv w) =
           (if code err = Some ''TAR_BAD_ARCHIVE'' then Inr [] else Inl err)"
  using assms(3,4)
  by (simp add: sync_unfold [OF assms(1,2)] syncTry_def tar_extract_def syncCatch_def Let_def
      split: prod.splits)

theorem corrupt_archive_empty_witness:
  "fst (syncPackageVersionFiles
          (demoEnv\<lparr>tarFailure := Some (Error (Some ''TAR_BAD_ARCHIVE'') ''Unrecognized archive format'')\<rparr>)
          demoVersion emptyWorld) = Inr []
   \<and> fst (syncPackageVersionFiles (demoEnv\<lparr>tarFailure := Some EIO\<rparr>) demoVersion emptyWorld)
       = Inl EIO"
  using corrupt_archive_empty [of
      "demoEnv\<lparr>tarFailure := Some (Error (Some ''TAR_BAD_ARCHIVE'') ''Unrecognized archive format'')\<rparr>"
      demoVersion demoPackage "js ''/data/t''"
      "Error (Some ''TAR_BAD_ARCHIVE'') ''Unrecognized archive format''" emptyWorld]
    corrupt_archive_empty [of "demoEnv\<lparr>tarFailure := Some EIO\<rparr>"
      demoVersion demoPackage "js ''/data/t''" EIO emptyWorld]
  by (simp add: demoEnv_def demoVersion_def EIO_def)

text \<open>
  The claim as worded, that every truncated or invalid tarball gives the empty result, fails
  on the truncated tarball: its sync raises the decompressor's error.
\<close>

theorem corrupt_archive_truncated_counterexample:
  "fst (syncPackageVersionFiles truncatedEnv demoVersion emptyWorld) = Inl Z_BUF_ERROR
   \<and> fst (syncPackageVersionFiles truncatedEnv demoVersion emptyWorld) \<noteq> Inr []"
proof -
  have pkg: "findPackageByPackageId truncatedEnv (packageId demoVersion) = Some demoPackage"
    and tmp: "createTempDir truncatedEnv (dataDir truncatedEnv)
                (tempDirName truncatedEnv demoPackage demoVersion) = Inr (js ''/data/t'')"
    by (simp_all add: truncatedEnv_def demoEnv_def demoVersion_def)
  have "downloadDistToFile truncatedEnv (tarDist demoVersion) (js ''/data/t'' @ js ''.tgz'') = None"
    and "tarFailure truncatedEnv = Some Z_BUF_ERROR"
    by (simp_all add: truncatedEnv_def demoEnv_def)
  then have "fst (syncPackageVersionFiles truncatedEnv demoVersion emptyWorld) = Inl Z_BUF_ERROR"
    by (simp add: sync_unfold [OF pkg tmp] syncTry_def tar_extract_def syncCatch_def Let_def
        Z_BUF_ERROR_def split: prod.splits)
  then show ?thesis by simp
qed

text \<open>
  C4. When a path is not indexed yet and everything up to the index insert succeeds, a
  duplicate-key failure of the insert is swallowed and the entry just built is returned;
  any other failure of the insert is raised to the caller.
\<close>

theorem duplicate_insert_swallowed:
  assumes "indexed (index w) pv path = None"
    and "stat e lf = Inr sz"
    and "calculateIntegrity e lf = Inr (sha, integ)"
    and "encodeURI path = Inr dp"
    and "saveDist e (Package_createPackageVersionFile pkg dp (version pv) sz sha integ) lf = None"
    and "file = \<lparr>file_packageVersionId = packageVersionId pv, directory = dirname path,
                  name = basename path,
                  dist = Package_createPackageVersionFile pkg dp (version pv) sz sha integ,
                  contentType = mimeLookup e path, mtime = publishTime pv\<rparr>"
    and "insertFault e file = Some err"
  shows "fst (savePackageVersionFile e pkg pv path lf w) =
           (if code err = Some ''ER_DUP_ENTRY'' then Inr file else Inl err)"
  using assms
  by (simp add: savePackageVersionFile_def getDirectoryAndName_def indexed_def Let_def
      repo_createPackageVersionFile_def)

theorem duplicate_insert_swallowed_witness:
  "fst (savePackageVersionFile (demoEnv\<lparr>insertFault := (\<lambda>f. Some ER_DUP_ENTRY)\<rparr>) demoPackage
          demoVersion (js ''/index.js'') (js ''/data/t/index.js'') emptyWorld) =
     Inr \<lparr>file_packageVersionId = js ''v1'', directory = js ''/'', name = js ''index.js'',
          dist = \<lparr>dist_fullname = js ''foo'', dist_path = js ''/index.js'',
                   dist_version = js ''1.0.0'', dist_size = 10, dist_shasum = js ''s'',
                   dist_integrity = js ''i''\<rparr>,
          contentType = js ''text/plain'', mtime = 7\<rparr>
   \<and> fst (savePackageVersionFile
          (demoEnv\<lparr>insertFault := (\<lambda>f. Some (Error (Some ''ER_LOCK_DEADLOCK'') ''Deadlock''))\<rparr>)
          demoPackage demoVersion (js ''/index.js'') (js ''/data/t/index.js'') emptyWorld) =
     Inl (Error (Some ''ER_LOCK_DEADLOCK'') ''Deadlock'')"
proof -
  let ?file = "\<lparr>file_packageVersionId = js ''v1'', directory = js ''/'', name = js ''index.js'',
          dist = \<lparr>dist_fullname = js ''foo'', dist_path = js ''/index.js'',
                   dist_version = js ''1.0.0'', dist_size = 10, dist_shasum = js ''s'',
                   dist_integrity = js ''i''\<rparr>,
          contentType = js ''text/plain'', mtime = 7\<rparr>"
  have i: "indexed (index emptyWorld) demoVersion (js ''/index.js'') = None"
    by (simp add: indexed_def emptyWorld_def repo_findPackageVersionFile_def)
  have f: "\<And>e. stat e = stat demoEnv \<Longrightarrow> mimeLookup e = mimeLookup demoEnv \<Longrightarrow>
     ?file = \<lparr>file_packageVersionId = packageVersionId demoVersion,
       directory = dirname (js ''/index.js''), name = basename (js ''/index.js''),
       dist = Package_createPackageVersionFile demoPackage (js ''/index.js'') (version demoVersion)
                10 (js ''s'') (js ''i''),
       contentType = mimeLookup e (js ''/index.js''), mtime = publishTime demoVersion\<rparr>"
    by (simp add: demo_index_js demoVersion_def demoPackage_def demoEnv_def
        Package_createPackageVersionFile_def)
  show ?thesis
    using duplicate_insert_swallowed [of emptyWorld demoVersion "js ''/index.js''"
        "demoEnv\<lparr>insertFault := (\<lambda>f. Some ER_DUP_ENTRY)\<rparr>" "js ''/data/t/index.js''" 10
        "js ''s''" "js ''i''" "js ''/index.js''" demoPackage ?file ER_DUP_ENTRY, OF i _ _ _ _ f]
      duplicate_insert_swallowed [of emptyWorld demoVersion "js ''/index.js''"
        "demoEnv\<lparr>insertFault := (\<lambda>f. Some (Error (Some ''ER_LOCK_DEADLOCK'') ''Deadlock''))\<rparr>"
        "js ''/data/t/index.js''" 10 "js ''s''" "js ''i''" "js ''/index.js''" demoPackage ?file
        "Error (Some ''ER_LOCK_DEADLOCK'') ''Deadlock''", OF i _ _ _ _ f]
    by (simp add: demoEnv_def demo_index_js ER_DUP_ENTRY_def)
qed

text \<open>
  C6. Path normalization. A retained member contributes the path made of a slash and its
  name without the first segment. Such a path splits by POSIX \<^verbatim>\<open>dirname\<close> and
  \<^verbatim>\<open>basename\<close>: a file directly under the root has directory \<open>/\<close>, a file below a
  directory has that directory. The member \<open>package/dir/sub/file.js\<close> yields directory
  \<open>/dir/sub\<close> and name \<open>file.js\<close>; \<open>/a.txt\<close>, as a path or as a member name,
  yields directory \<open>/\<close> and name \<open>a.txt\<close>.
\<close>

theorem path_normalization:
  "(retained entry \<longrightarrow>
      fst (onentry entry (paths, r)) = paths @ [js ''/'' @ stripFirst (entry_path entry)])
   \<and> (SLASH \<notin> set seg \<longrightarrow> stripFirst (seg @ js ''/'' @ rest) = rest)
   \<and> (n \<noteq> [] \<and> SLASH \<notin> set n \<longrightarrow> getDirectoryAndName (js ''/'' @ n) = (js ''/'', n))
   \<and> (n \<noteq> [] \<and> SLASH \<notin> set n \<and> d \<noteq> [] \<longrightarrow>
        getDirectoryAndName (js ''/'' @ d @ js ''/'' @ n) = (js ''/'' @ d, n))
   \<and> getDirectoryAndName (js ''/'' @ stripFirst (js ''package/dir/sub/file.js''))
        = (js ''/dir/sub'', js ''file.js'')
   \<and> getDirectoryAndName (js ''/a.txt'') = (js ''/'', js ''a.txt'')
   \<and> getDirectoryAndName (js ''/'' @ stripFirst (js ''/a.txt'')) = (js ''/'', js ''a.txt'')"
proof (intro conjI impI)
  assume "retained entry"
  then show "fst (onentry entry (paths, r)) = paths @ [js ''/'' @ stripFirst (entry_path entry)]"
    by (auto simp: onentry_def retained_def Let_def)
next
  assume "SLASH \<notin> set seg"
  then show "stripFirst (seg @ js ''/'' @ rest) = rest"
    by (simp add: js_slash stripFirst_seg)
next
  assume a: "n \<noteq> [] \<and> SLASH \<notin> set n"
  then have "basename ([] @ SLASH # n) = n" by (intro basename_file) auto
  with a show "getDirectoryAndName (js ''/'' @ n) = (js ''/'', n)"
    by (simp add: getDirectoryAndName_def js_slash dirname_root del: append_Nil)
       (simp add: js_slash [symmetric])
next
  assume a: "n \<noteq> [] \<and> SLASH \<notin> set n \<and> d \<noteq> []"
  then have "dirname ((SLASH # d) @ SLASH # n) = SLASH # d"
    by (intro dirname_dir) auto
  moreover from a have "basename ((SLASH # d) @ SLASH # n) = n"
    by (intro basename_file) auto
  ultimately show "getDirectoryAndName (js ''/'' @ d @ js ''/'' @ n) = (js ''/'' @ d, n)"
    by (simp add: getDirectoryAndName_def js_slash)
next
  have s: "stripFirst (js ''package'' @ SLASH # js ''dir/sub/file.js'') = js ''dir/sub/file.js''"
    by (rule stripFirst_seg) (simp add: js_def SLASH_def)
  have "js ''package/dir/sub/file.js'' = js ''package'' @ SLASH # js ''dir/sub/file.js''"
    by (simp add: js_def SLASH_def)
  with s have "js ''/'' @ stripFirst (js ''package/dir/sub/file.js'') = js ''/dir/sub/file.js''"
    by (simp add: js_def)
  then show "getDirectoryAndName (js ''/'' @ stripFirst (js ''package/dir/sub/file.js''))
        = (js ''/dir/sub'', js ''file.js'')"
    by (simp add: getDirectoryAndName_def dirname_def basename_def js_def SLASH_def js_slice_def)
next
  show "getDirectoryAndName (js ''/a.txt'') = (js ''/'', js ''a.txt'')"
    by (simp add: getDirectoryAndName_def dirname_def basename_def js_def SLASH_def js_slice_def)
next
  have "stripFirst ([] @ SLASH # js ''a.txt'') = js ''a.txt''"
    by (rule stripFirst_seg) simp
  moreover have "js ''/a.txt'' = [] @ SLASH # js ''a.txt''"
    by (simp add: js_def SLASH_def)
  ultimately have "js ''/'' @ stripFirst (js ''/a.txt'') = js ''/a.txt''"
    by (simp add: js_def)
  then show "getDirectoryAndName (js ''/'' @ stripFirst (js ''/a.txt'')) = (js ''/'', js ''a.txt'')"
    by (simp add: getDirectoryAndName_def dirname_def basename_def js_def SLASH_def js_slice_def)
qed

theorem path_normalization_witness:
  "fst (onentry \<lparr>entry_type = ''File'', entry_path = js ''lodash-es/fp/add.js''\<rparr> ([], []))
     = [js ''/fp/add.js'']
   \<and> stripFirst (js ''lodash-es/fp/add.js'') = js ''fp/add.js''
   \<and> getDirectoryAndName (js ''/add.js'') = (js ''/'', js ''add.js'')
   \<and> getDirectoryAndName (js ''/fp/add.js'') = (js ''/fp'', js ''add.js'')"
proof -
  let ?en = "\<lparr>entry_type = ''File'', entry_path = js ''lodash-es/fp/add.js''\<rparr>"
  have r: "retained ?en"
    by (simp add: retained_def js_def)
  have s: "SLASH \<notin> set (js ''lodash-es'')" "js ''add.js'' \<noteq> [] \<and> SLASH \<notin> set (js ''add.js'')"
    "js ''add.js'' \<noteq> [] \<and> SLASH \<notin> set (js ''add.js'') \<and> js ''fp'' \<noteq> []"
    by (simp_all add: js_def SLASH_def)
  from path_normalization [of ?en "[]" "[]" "js ''lodash-es''" "js ''fp/add.js''" "js ''add.js''" "js ''fp''"]
    r s
  have "fst (onentry ?en ([], [])) = [] @ [js ''/'' @ stripFirst (entry_path ?en)]"
    and "stripFirst (js ''lodash-es'' @ js ''/'' @ js ''fp/add.js'') = js ''fp/add.js''"
    and "getDirectoryAndName (js ''/'' @ js ''add.js'') = (js ''/'', js ''add.js'')"
    and "getDirectoryAndName (js ''/'' @ js ''fp'' @ js ''/'' @ js ''add.js'') = (js ''/'' @ js ''fp'', js ''add.js'')"
    by blast+
  then show ?thesis by (simp add: js_def)
qed

text \<open>
  C8. When a path that is not yet indexed is materialized, the blob is stored under the
  percent-encoding of the path, which is pure ASCII, while the entry's directory and name
  are those of the path as it is. The path \<open>/resource/ToOneFrom\<chi>.js\<close> (\<open>\<chi>\<close> is the
  code unit 0x3C7) is stored under \<open>/resource/ToOneFrom%CF%87.js\<close> and keeps its
  name.
\<close>

theorem blob_key_percent_encoded:
  "(indexed (index w) pv path = None \<and> savePackageVersionFile e pkg pv path lf w = (Inr f, w')
      \<longrightarrow> encodeURI path = Inr (dist_path (dist f))
          \<and> SaveDist (dist f) lf \<in> set (trace w')
          \<and> (\<forall>c\<in>set (dist_path (dist f)). c < 128)
          \<and> directory f = dirname path \<and> name f = basename path)
   \<and> encodeURI (js ''/resource/ToOneFrom'' @ [0x3C7] @ js ''.js'')
        = Inr (js ''/resource/ToOneFrom%CF%87.js'')
   \<and> getDirectoryAndName (js ''/resource/ToOneFrom'' @ [0x3C7] @ js ''.js'')
        = (js ''/resource'', js ''ToOneFrom'' @ [0x3C7] @ js ''.js'')"
proof (intro conjI impI)
  assume a: "indexed (index w) pv path = None
      \<and> savePackageVersionFile e pkg pv path lf w = (Inr f, w')"
  then have b: "encodeURI path = Inr (dist_path (dist f))"
    "SaveDist (dist f) lf \<in> set (trace w')"
    using save_fresh_blob [of w pv path e pkg lf f w'] by blast+
  from a have r: "directory f = dirname path" "name f = basename path"
    using save_result [of e pkg pv path lf w f w'] by blast+
  from b show "encodeURI path = Inr (dist_path (dist f))" by blast
  from b show "SaveDist (dist f) lf \<in> set (trace w')" by blast
  from b show "\<forall>c\<in>set (dist_path (dist f)). c < 128"
    using encodeURI_ascii [of path "dist_path (dist f)"] by blast
  from r show "directory f = dirname path" by blast
  from r show "name f = basename path" by blast
qed (rule chi_key chi_name)+

theorem blob_key_percent_encoded_witness:
  "\<exists>f w'. savePackageVersionFile demoEnv demoPackage demoVersion
       (js ''/resource/ToOneFrom'' @ [0x3C7] @ js ''.js'') (js ''/data/t/x'') emptyWorld = (Inr f, w')
     \<and> dist_path (dist f) = js ''/resource/ToOneFrom%CF%87.js''
     \<and> SaveDist (dist f) (js ''/data/t/x'') \<in> set (trace w')
     \<and> directory f = js ''/resource''
     \<and> name f = js ''ToOneFrom'' @ [0x3C7] @ js ''.js''"
proof -
  let ?p = "js ''/resource/ToOneFrom'' @ [0x3C7] @ js ''.js''"
  have i: "indexed (index emptyWorld) demoVersion ?p = None"
    by (simp add: indexed_def emptyWorld_def repo_findPackageVersionFile_def)
  have ok: "collaboratorsSucceed demoEnv"
    by (simp add: collaboratorsSucceed_def demoEnv_def)
  from save_ok [OF ok chi_key, of demoPackage demoVersion "js ''/data/t/x''" emptyWorld]
  obtain f w' where s: "savePackageVersionFile demoEnv demoPackage demoVersion ?p
      (js ''/data/t/x'') emptyWorld = (Inr f, w')" by blast
  from blob_key_percent_encoded [of emptyWorld demoVersion ?p demoEnv demoPackage
      "js ''/data/t/x''" f w'] i s
  have "encodeURI ?p = Inr (dist_path (dist f))"
    and "SaveDist (dist f) (js ''/data/t/x'') \<in> set (trace w')"
    and "directory f = dirname ?p" and "name f = basename ?p"
    and "getDirectoryAndName ?p = (js ''/resource'', js ''ToOneFrom'' @ [0x3C7] @ js ''.js'')"
    and "encodeURI ?p = Inr (js ''/resource/ToOneFrom%CF%87.js'')"
    by blast+
  with s show ?thesis by (auto simp: getDirectoryAndName_def)
qed



text \<open>
  C2. Materialization is idempotent. A path that has an index row gets that row back and
  the world gains the lookup event only. After a sync in which nothing failed, a second
  sync of the same version returns the same entries, leaves the index as it is and writes
  no blob.
\<close>

theorem materialization_idempotent:
  assumes "findPackageByPackageId e (packageId pv) = Some pkg"
    and "createTempDir e (dataDir e) (tempDirName e pkg pv) = Inr t"
    and "downloadDistToFile e (tarDist pv) (t @ js ''.tgz'') = None"
    and "tarFailure e = None"
    and "collaboratorsSucceed e"
    and "\<forall>p\<in>set (manifest (tarEntries e)). \<exists>dp. encodeURI p = Inr dp"
    and "\<forall>p. savePackageVersionReadme e pv p = None"
  shows "(indexed (index w0) pv path = Some f \<longrightarrow>
            savePackageVersionFile e pkg pv path lf w0 = (Inr f, emit (findEvent pv path) w0))
       \<and> (\<exists>fs w1 w2 evs.
            syncPackageVersionFiles e pv w = (Inr fs, w1)
            \<and> syncPackageVersionFiles e pv w1 = (Inr fs, w2)
            \<and> index w2 = index w1 \<and> trace w2 = trace w1 @ evs
            \<and> list_all (\<lambda>ev. \<not> isBlobWrite ev \<and> \<not> isIndexWrite ev) evs)"
proof (intro conjI impI)
  assume "indexed (index w0) pv path = Some f"
  then show "savePackageVersionFile e pkg pv path lf w0 = (Inr f, emit (findEvent pv path) w0)"
    by (simp add: indexed_def findEvent_def save_found)
next
  from sync_first [OF assms, of w] obtain fs w1 where
    s1: "syncPackageVersionFiles e pv w = (Inr fs, w1)"
    and m: "map (indexed (index w1) pv) (manifest (tarEntries e)) = map Some fs" by blast
  from indexed_all [OF m] have sy: "synced e pv w1"
    and fs: "map (\<lambda>p. the (indexed (index w1) pv p)) (manifest (tarEntries e)) = fs"
    by (simp_all add: synced_def)
  from sync_synced [OF assms(1-4) sy assms(7)] fs obtain w2 evs where
    "syncPackageVersionFiles e pv w1 = (Inr fs, w2)" "index w2 = index w1"
    "trace w2 = trace w1 @ evs" "list_all (\<lambda>ev. \<not> isBlobWrite ev \<and> \<not> isIndexWrite ev) evs"
    by auto
  with s1 show "\<exists>fs w1 w2 evs.
            syncPackageVersionFiles e pv w = (Inr fs, w1)
            \<and> syncPackageVersionFiles e pv w1 = (Inr fs, w2)
            \<and> index w2 = index w1 \<and> trace w2 = trace w1 @ evs
            \<and> list_all (\<lambda>ev. \<not> isBlobWrite ev \<and> \<not> isIndexWrite ev) evs"
    by blast
qed

theorem materialization_idempotent_witness:
  "savePackageVersionFile demoEnv demoPackage demoVersion (js ''/index.js'')
       (js ''/data/t/index.js'') (emptyWorld\<lparr>index := [demoRow]\<rparr>)
     = (Inr demoRow,
        \<lparr>index = [demoRow], tmpfs = [],
         trace = [FindFile (js ''v1'') (js ''/'') (js ''index.js'')]\<rparr>)
   \<and> (\<exists>fs w1 w2 evs.
        syncPackageVersionFiles demoEnv demoVersion emptyWorld = (Inr fs, w1)
        \<and> syncPackageVersionFiles demoEnv demoVersion w1 = (Inr fs, w2)
        \<and> index w2 = index w1 \<and> trace w2 = trace w1 @ evs
        \<and> list_all (\<lambda>ev. \<not> isBlobWrite ev \<and> \<not> isIndexWrite ev) evs)"
proof -
  have i: "indexed (index (emptyWorld\<lparr>index := [demoRow]\<rparr>)) demoVersion (js ''/index.js'')
             = Some demoRow"
    by (simp add: indexed_def demo_index_js repo_findPackageVersionFile_def sameKey_def
        demoRow_def demoVersion_def)
  have ev: "emit (findEvent demoVersion (js ''/index.js'')) (emptyWorld\<lparr>index := [demoRow]\<rparr>)
      = \<lparr>index = [demoRow], tmpfs = [],
         trace = [FindFile (js ''v1'') (js ''/'') (js ''index.js'')]\<rparr>"
    by (simp add: emit_def findEvent_def demo_index_js emptyWorld_def demoVersion_def)
  from materialization_idempotent [OF demo_setup(1-5) demo_encodable demo_setup(6),
      of "emptyWorld\<lparr>index := [demoRow]\<rparr>" "js ''/index.js''" demoRow
         "js ''/data/t/index.js''" emptyWorld] i
  show ?thesis unfolding ev by blast
qed

text \<open>
  C5. Cleanup. Once the package is resolved and the temporary directory created, every way
  the sync can end goes through the cleanup: the removal of the tarball is always asked
  for, the removal of the directory whenever the first removal did not fail; when neither
  fails, neither path exists afterwards. A failing removal is logged as a warning, and
  what the sync returns or raises is the same whatever the removals do.
\<close>

theorem cleanup_guarantee:
  assumes "findPackageByPackageId e (packageId pv) = Some pkg"
    and "createTempDir e (dataDir e) (tempDirName e pkg pv) = Inr t"
  shows "fst (syncPackageVersionFiles (e\<lparr>rm := r\<rparr>) pv w) = fst (syncPackageVersionFiles e pv w)
       \<and> Rm (t @ js ''.tgz'') \<in> set (trace (snd (syncPackageVersionFiles e pv w)))
       \<and> (rm e (t @ js ''.tgz'') = None \<longrightarrow>
            Rm t \<in> set (trace (snd (syncPackageVersionFiles e pv w))))
       \<and> (rm e (t @ js ''.tgz'') = None \<and> rm e t = None \<longrightarrow>
            t @ js ''.tgz'' \<notin> set (tmpfs (snd (syncPackageVersionFiles e pv w)))
            \<and> t \<notin> set (tmpfs (snd (syncPackageVersionFiles e pv w))))
       \<and> (rm e (t @ js ''.tgz'') \<noteq> None \<or> rm e t \<noteq> None \<longrightarrow>
            last (trace (snd (syncPackageVersionFiles e pv w))) = LogWarn ''remove tmpdir'')"
proof -
  let ?tf = "t @ js ''.tgz''"
  let ?body = "syncCatch (syncTry e pkg pv t ?tf (prepared e pkg pv t w))"
  have pkg': "findPackageByPackageId (e\<lparr>rm := r\<rparr>) (packageId pv) = Some pkg"
    and tmp': "createTempDir (e\<lparr>rm := r\<rparr>) (dataDir (e\<lparr>rm := r\<rparr>))
                 (tempDirName (e\<lparr>rm := r\<rparr>) pkg pv) = Inr t"
    using assms by (simp_all add: tempDirName_def)
  have u: "syncPackageVersionFiles e pv w = (fst ?body, syncFinally e t ?tf (snd ?body))"
    by (rule sync_unfold [OF assms])
  have "fst (syncPackageVersionFiles (e\<lparr>rm := r\<rparr>) pv w) = fst ?body"
    by (simp add: sync_unfold [OF pkg' tmp'] syncTry_rm prepared_rm)
  then have 1: "fst (syncPackageVersionFiles (e\<lparr>rm := r\<rparr>) pv w) = fst (syncPackageVersionFiles e pv w)"
    by (simp add: u)
  obtain evs where "trace (syncFinally e t ?tf (snd ?body)) = trace (snd ?body) @ Rm ?tf # evs"
    using finally_trace [of e t ?tf "snd ?body"] by blast
  then have 2: "Rm ?tf \<in> set (trace (snd (syncPackageVersionFiles e pv w)))"
    by (simp add: u)
  have 3: "rm e ?tf = None \<longrightarrow> Rm t \<in> set (trace (snd (syncPackageVersionFiles e pv w)))"
    by (simp add: u finally_second_rm)
  have 4: "rm e ?tf = None \<and> rm e t = None \<longrightarrow>
            ?tf \<notin> set (tmpfs (snd (syncPackageVersionFiles e pv w)))
            \<and> t \<notin> set (tmpfs (snd (syncPackageVersionFiles e pv w)))"
    using finally_removed [of e ?tf t "snd ?body"] by (simp add: u)
  have 5: "rm e ?tf \<noteq> None \<or> rm e t \<noteq> None \<longrightarrow>
            last (trace (snd (syncPackageVersionFiles e pv w))) = LogWarn ''remove tmpdir''"
    using finally_logged [of e ?tf t "snd ?body"] by (simp add: u)
  from 1 2 3 4 5 show ?thesis by blast
qed

theorem cleanup_guarantee_witness:
  "(js ''/data/t.tgz'' \<notin> set (tmpfs (snd (syncPackageVersionFiles demoEnv demoVersion emptyWorld)))
    \<and> js ''/data/t'' \<notin> set (tmpfs (snd (syncPackageVersionFiles demoEnv demoVersion emptyWorld))))
   \<and> (js ''/data/t.tgz'' \<notin> set (tmpfs (snd (syncPackageVersionFiles
          (demoEnv\<lparr>downloadDistToFile := (\<lambda>d p. Some EIO)\<rparr>) demoVersion emptyWorld)))
    \<and> js ''/data/t'' \<notin> set (tmpfs (snd (syncPackageVersionFiles
          (demoEnv\<lparr>downloadDistToFile := (\<lambda>d p. Some EIO)\<rparr>) demoVersion emptyWorld))))
   \<and> fst (syncPackageVersionFiles (demoEnv\<lparr>rm := (\<lambda>p. Some EIO)\<rparr>) demoVersion emptyWorld)
       = fst (syncPackageVersionFiles demoEnv demoVersion emptyWorld)
   \<and> last (trace (snd (syncPackageVersionFiles (demoEnv\<lparr>rm := (\<lambda>p. Some EIO)\<rparr>) demoVersion
        emptyWorld))) = LogWarn ''remove tmpdir''"
proof -
  let ?dl = "demoEnv\<lparr>downloadDistToFile := (\<lambda>d p. Some EIO)\<rparr>"
  let ?rm = "demoEnv\<lparr>rm := (\<lambda>p. Some EIO)\<rparr>"
  have tf: "js ''/data/t'' @ js ''.tgz'' = js ''/data/t.tgz''" by (simp add: js_def)
  have dl: "findPackageByPackageId ?dl (packageId demoVersion) = Some demoPackage"
    "createTempDir ?dl (dataDir ?dl) (tempDirName ?dl demoPackage demoVersion) = Inr (js ''/data/t'')"
    by (simp_all add: demoEnv_def demoVersion_def)
  have rm: "findPackageByPackageId ?rm (packageId demoVersion) = Some demoPackage"
    "createTempDir ?rm (dataDir ?rm) (tempDirName ?rm demoPackage demoVersion) = Inr (js ''/data/t'')"
    by (simp_all add: demoEnv_def demoVersion_def)
  have n: "\<And>p. rm demoEnv p = None" "\<And>p. rm ?dl p = None" "\<And>p. rm ?rm p \<noteq> None"
    by (simp_all add: demoEnv_def)
  from cleanup_guarantee [OF demo_setup(1,2), of "\<lambda>p. Some EIO" emptyWorld]
    cleanup_guarantee [OF dl, of "\<lambda>p. Some EIO" emptyWorld]
    cleanup_guarantee [OF rm, of "\<lambda>p. Some EIO" emptyWorld] n
  show ?thesis unfolding tf by auto
qed

text \<open>
  C7. README selection. The README member that \<^verbatim>\<open>onentry\<close> records is the first
  stripped name, in the extractor's order, equal to \<open>README.md\<close>, \<open>readme.md\<close> or
  \<open>Readme.md\<close>; once one is recorded, later members leave it as it is. When the
  materialization succeeds, the events of the sync are: events that are no README
  hand-over and include the lookup of every manifest path, then the single hand-over of
  the recorded README if there is one, then cleanup events only.
\<close>

theorem readme_selection:
  assumes "findPackageByPackageId e (packageId pv) = Some pkg"
    and "createTempDir e (dataDir e) (tempDirName e pkg pv) = Inr t"
    and "downloadDistToFile e (tarDist pv) (t @ js ''.tgz'') = None"
    and "tarFailure e = None"
    and "collaboratorsSucceed e"
    and "\<forall>p\<in>set (manifest (tarEntries e)). \<exists>dp. encodeURI p = Inr dp"
  shows "snd (foldl (\<lambda>s entry. onentry entry s) ([], []) (tarEntries e))
           = firstReadme (tarEntries e)
       \<and> (r \<noteq> [] \<longrightarrow> snd (onentry entry (ps, r)) = r)
       \<and> (\<exists>evs1 evs2.
            trace (snd (syncPackageVersionFiles e pv w)) =
              trace w @ evs1
                @ (if firstReadme (tarEntries e) \<noteq> []
                   then [SaveReadme pv (join e t (firstReadme (tarEntries e)))] else [])
                @ evs2
            \<and> list_all (\<lambda>ev. \<not> isReadmeSave ev) evs1
            \<and> (\<forall>p\<in>set (manifest (tarEntries e)). findEvent pv p \<in> set evs1)
            \<and> list_all isCleanupEvent evs2)"
proof (intro conjI impI)
  show "snd (foldl (\<lambda>s entry. onentry entry s) ([], []) (tarEntries e))
           = firstReadme (tarEntries e)"
    by (simp add: onentry_fold)
next
  assume "r \<noteq> []"
  then show "snd (onentry entry (ps, r)) = r"
    by (simp add: onentry_def Let_def)
next
  show "\<exists>evs1 evs2.
            trace (snd (syncPackageVersionFiles e pv w)) =
              trace w @ evs1
                @ (if firstReadme (tarEntries e) \<noteq> []
                   then [SaveReadme pv (join e t (firstReadme (tarEntries e)))] else [])
                @ evs2
            \<and> list_all (\<lambda>ev. \<not> isReadmeSave ev) evs1
            \<and> (\<forall>p\<in>set (manifest (tarEntries e)). findEvent pv p \<in> set evs1)
            \<and> list_all isCleanupEvent evs2"
    by (rule sync_events [OF assms])
qed

theorem readme_selection_witness:
  "snd (foldl (\<lambda>s entry. onentry entry s) ([], []) demoEntries) = js ''README.md''
   \<and> snd (onentry \<lparr>entry_type = ''File'', entry_path = js ''package/readme.md''\<rparr>
            ([js ''/README.md''], js ''README.md'')) = js ''README.md''
   \<and> (\<exists>evs1 evs2.
        trace (snd (syncPackageVersionFiles demoEnv demoVersion emptyWorld)) =
          evs1 @ [SaveReadme demoVersion (js ''/data/t/README.md'')] @ evs2
        \<and> list_all (\<lambda>ev. \<not> isReadmeSave ev) evs1
        \<and> findEvent demoVersion (js ''/README.md'') \<in> set evs1
        \<and> findEvent demoVersion (js ''/readme.md'') \<in> set evs1
        \<and> list_all isCleanupEvent evs2)"
proof -
  have t: "tarEntries demoEnv = demoEntries" by (simp add: demoEnv_def)
  have j: "join demoEnv (js ''/data/t'') (js ''README.md'') = js ''/data/t/README.md''"
    by (simp add: demoEnv_def demoJoin_def js_def SLASH_def)
  have e: "trace emptyWorld = []" by (simp add: emptyWorld_def)
  have n: "js ''README.md'' \<noteq> []" by (simp add: js_def)
  from readme_selection [OF demo_setup(1-5) demo_encodable,
      of "js ''README.md''" "\<lparr>entry_type = ''File'', entry_path = js ''package/readme.md''\<rparr>"
         "[js ''/README.md'']" emptyWorld]
  show ?thesis
    unfolding demo_readme demo_manifest j e using n t by auto
qed

text \<open>
  C10. The has-files check belongs to the lazy trigger alone. When the index has a row of
  the version, listing and showing answer from the index after the check, with no sync;
  when it has none, the trigger runs the sync. A direct sync of a version whose manifest is
  indexed already still downloads and extracts the tarball, returns the existing rows,
  and writes neither blob nor index row.
\<close>

theorem lazy_trigger_only:
  assumes "findPackageByPackageId e (packageId pv) = Some pkg"
    and "createTempDir e (dataDir e) (tempDirName e pkg pv) = Inr t"
    and "downloadDistToFile e (tarDist pv) (t @ js ''.tgz'') = None"
    and "tarFailure e = None"
    and "synced e pv w"
    and "\<forall>p. savePackageVersionReadme e pv p = None"
  shows "(repo_hasPackageVersionFiles (index w0) (packageVersionId pv) \<longrightarrow>
            listPackageVersionFiles e pv d w0 =
              (Inr (repo_listPackageVersionFiles (index w0) (packageVersionId pv) d),
               w0\<lparr>trace := trace w0 @ [HasFiles (packageVersionId pv),
                                       ListFiles (packageVersionId pv) d]\<rparr>)
            \<and> showPackageVersionFile e pv path w0 =
              (Inr (indexed (index w0) pv path),
               w0\<lparr>trace := trace w0 @ [HasFiles (packageVersionId pv), findEvent pv path]\<rparr>))
       \<and> (\<not> repo_hasPackageVersionFiles (index w0) (packageVersionId pv) \<longrightarrow>
            ensurePackageVersionFilesSync e pv w0 =
              (case syncPackageVersionFiles e pv (emit (HasFiles (packageVersionId pv)) w0) of
                 (Inl err, w2) \<Rightarrow> (Inl err, w2)
               | (Inr files, w2) \<Rightarrow> (Inr (), w2)))
       \<and> (\<exists>w' evs.
            syncPackageVersionFiles e pv w =
              (Inr (map (\<lambda>p. the (indexed (index w) pv p)) (manifest (tarEntries e))), w')
            \<and> index w' = index w \<and> trace w' = trace w @ evs
            \<and> list_all (\<lambda>ev. \<not> isBlobWrite ev \<and> \<not> isIndexWrite ev) evs
            \<and> Download (tarDist pv) (t @ js ''.tgz'') \<in> set evs
            \<and> TarExtract (t @ js ''.tgz'') t \<in> set evs)"
proof (intro conjI impI)
  assume h: "repo_hasPackageVersionFiles (index w0) (packageVersionId pv)"
  then have en: "ensurePackageVersionFilesSync e pv w0 = (Inr (), emit (HasFiles (packageVersionId pv)) w0)"
    by (simp add: ensurePackageVersionFilesSync_def Let_def)
  show "listPackageVersionFiles e pv d w0 =
              (Inr (repo_listPackageVersionFiles (index w0) (packageVersionId pv) d),
               w0\<lparr>trace := trace w0 @ [HasFiles (packageVersionId pv),
                                       ListFiles (packageVersionId pv) d]\<rparr>)"
    by (simp add: listPackageVersionFiles_def en emit_def)
  show "showPackageVersionFile e pv path w0 =
              (Inr (indexed (index w0) pv path),
               w0\<lparr>trace := trace w0 @ [HasFiles (packageVersionId pv), findEvent pv path]\<rparr>)"
    by (simp add: showPackageVersionFile_def en getDirectoryAndName_def indexed_def findEvent_def
        emit_def)
next
  assume "\<not> repo_hasPackageVersionFiles (index w0) (packageVersionId pv)"
  then show "ensurePackageVersionFilesSync e pv w0 =
              (case syncPackageVersionFiles e pv (emit (HasFiles (packageVersionId pv)) w0) of
                 (Inl err, w2) \<Rightarrow> (Inl err, w2)
               | (Inr files, w2) \<Rightarrow> (Inr (), w2))"
    by (simp add: ensurePackageVersionFilesSync_def Let_def)
next
  show "\<exists>w' evs.
            syncPackageVersionFiles e pv w =
              (Inr (map (\<lambda>p. the (indexed (index w) pv p)) (manifest (tarEntries e))), w')
            \<and> index w' = index w \<and> trace w' = trace w @ evs
            \<and> list_all (\<lambda>ev. \<not> isBlobWrite ev \<and> \<not> isIndexWrite ev) evs
            \<and> Download (tarDist pv) (t @ js ''.tgz'') \<in> set evs
            \<and> TarExtract (t @ js ''.tgz'') t \<in> set evs"
    by (rule sync_synced [OF assms])
qed

theorem lazy_trigger_only_witness:
  "listPackageVersionFiles demoEnvOne demoVersion (js ''/'') (emptyWorld\<lparr>index := [demoRow]\<rparr>) =
     (Inr [demoRow],
      \<lparr>index = [demoRow], tmpfs = [],
       trace = [HasFiles (js ''v1''), ListFiles (js ''v1'') (js ''/'')]\<rparr>)
   \<and> ensurePackageVersionFilesSync demoEnvOne demoVersion emptyWorld =
       (case syncPackageVersionFiles demoEnvOne demoVersion (emit (HasFiles (js ''v1'')) emptyWorld) of
          (Inl err, w2) \<Rightarrow> (Inl err, w2)
        | (Inr files, w2) \<Rightarrow> (Inr (), w2))
   \<and> (\<exists>w' evs.
        syncPackageVersionFiles demoEnvOne demoVersion (emptyWorld\<lparr>index := [demoRow]\<rparr>)
          = (Inr [demoRow], w')
        \<and> index w' = [demoRow] \<and> trace w' = evs
        \<and> list_all (\<lambda>ev. \<not> isBlobWrite ev \<and> \<not> isIndexWrite ev) evs
        \<and> Download (tarDist demoVersion) (js ''/data/t.tgz'') \<in> set evs
        \<and> TarExtract (js ''/data/t.tgz'') (js ''/data/t'') \<in> set evs)"
proof -
  let ?e = "demoEnvOne"
  let ?w = "emptyWorld\<lparr>index := [demoRow]\<rparr>"
  have tf: "js ''/data/t'' @ js ''.tgz'' = js ''/data/t.tgz''" by (simp add: js_def)
  have pre: "findPackageByPackageId ?e (packageId demoVersion) = Some demoPackage"
    "createTempDir ?e (dataDir ?e) (tempDirName ?e demoPackage demoVersion) = Inr (js ''/data/t'')"
    "downloadDistToFile ?e (tarDist demoVersion) (js ''/data/t'' @ js ''.tgz'') = None"
    "tarFailure ?e = None"
    "\<forall>p. savePackageVersionReadme ?e demoVersion p = None"
    by (simp_all add: demoEnvOne_def demoEnv_def demoVersion_def)
  have "retained \<lparr>entry_type = ''File'', entry_path = js ''package/index.js''\<rparr>"
    by (simp add: retained_def js_def)
  then have m: "manifest (tarEntries ?e) = [js ''/index.js'']"
    by (simp add: manifest_def demoEnvOne_def demo_strip) (simp add: js_def)
  have i: "indexed (index ?w) demoVersion (js ''/index.js'') = Some demoRow"
    by (simp add: indexed_def demo_index_js repo_findPackageVersionFile_def sameKey_def
        demoRow_def demoVersion_def)
  have sy: "synced ?e demoVersion ?w"
    unfolding synced_def m using i by simp
  have h: "repo_hasPackageVersionFiles (index ?w) (packageVersionId demoVersion)"
    "\<not> repo_hasPackageVersionFiles (index emptyWorld) (packageVersionId demoVersion)"
    by (simp_all add: repo_hasPackageVersionFiles_def demoRow_def demoVersion_def emptyWorld_def)
  have l: "repo_listPackageVersionFiles [demoRow] (js ''v1'') (js ''/'') = [demoRow]"
    by (simp add: repo_listPackageVersionFiles_def demoRow_def)
  have v: "packageVersionId demoVersion = js ''v1''" by (simp add: demoVersion_def)
  have w: "?w\<lparr>trace := trace ?w @ [HasFiles (js ''v1''), ListFiles (js ''v1'') (js ''/'')]\<rparr>
      = \<lparr>index = [demoRow], tmpfs = [],
         trace = [HasFiles (js ''v1''), ListFiles (js ''v1'') (js ''/'')]\<rparr>"
    "index ?w = [demoRow]" "trace ?w = []"
    by (simp_all add: emptyWorld_def)
  note T = lazy_trigger_only [OF pre(1-4) sy pre(5)]
  from T [of ?w "js ''/''" "js ''/x''"] h(1)
  have "listPackageVersionFiles ?e demoVersion (js ''/'') ?w =
      (Inr (repo_listPackageVersionFiles (index ?w) (packageVersionId demoVersion) (js ''/'')),
       ?w\<lparr>trace := trace ?w @ [HasFiles (packageVersionId demoVersion),
                                ListFiles (packageVersionId demoVersion) (js ''/'')]\<rparr>)"
    by blast
  then have 1: "listPackageVersionFiles ?e demoVersion (js ''/'') ?w =
        (Inr [demoRow], \<lparr>index = [demoRow], tmpfs = [],
           trace = [HasFiles (js ''v1''), ListFiles (js ''v1'') (js ''/'')]\<rparr>)"
    by (simp add: l v emptyWorld_def)
  from T [of emptyWorld "js ''/''" "js ''/x''"] h(2)
  have "ensurePackageVersionFilesSync ?e demoVersion emptyWorld =
       (case syncPackageVersionFiles ?e demoVersion
               (emit (HasFiles (packageVersionId demoVersion)) emptyWorld) of
          (Inl err, w2) \<Rightarrow> (Inl err, w2)
        | (Inr files, w2) \<Rightarrow> (Inr (), w2))"
    by blast
  then have 2: "ensurePackageVersionFilesSync ?e demoVersion emptyWorld =
       (case syncPackageVersionFiles ?e demoVersion (emit (HasFiles (js ''v1'')) emptyWorld) of
          (Inl err, w2) \<Rightarrow> (Inl err, w2)
        | (Inr files, w2) \<Rightarrow> (Inr (), w2))"
    by (simp add: v)
  from T [of ?w "js ''/''" "js ''/x''"] obtain w' evs where
    s: "syncPackageVersionFiles ?e demoVersion ?w =
          (Inr (map (\<lambda>p. the (indexed (index ?w) demoVersion p)) (manifest (tarEntries ?e))), w')"
    and r: "index w' = index ?w" "trace w' = trace ?w @ evs"
      "list_all (\<lambda>ev. \<not> isBlobWrite ev \<and> \<not> isIndexWrite ev) evs"
      "Download (tarDist demoVersion) (js ''/data/t'' @ js ''.tgz'') \<in> set evs"
      "TarExtract (js ''/data/t'' @ js ''.tgz'') (js ''/data/t'') \<in> set evs"
    by blast
  have "syncPackageVersionFiles ?e demoVersion ?w = (Inr [demoRow], w')"
    using s i by (simp add: m)
  moreover have "index w' = [demoRow]" "trace w' = evs"
    using r(1,2) by (simp_all add: emptyWorld_def)
  ultimately have 3: "\<exists>w' evs.
        syncPackageVersionFiles ?e demoVersion ?w = (Inr [demoRow], w')
        \<and> index w' = [demoRow] \<and> trace w' = evs
        \<and> list_all (\<lambda>ev. \<not> isBlobWrite ev \<and> \<not> isIndexWrite ev) evs
        \<and> Download (tarDist demoVersion) (js ''/data/t.tgz'') \<in> set evs
        \<and> TarExtract (js ''/data/t.tgz'') (js ''/data/t'') \<in> set evs"
    using r(3,4,5) unfolding tf by blast
  from 1 2 3 show ?thesis by blast
qed

end
